theory Spec2Isabelle
  imports Main "HOL-Library.Word"
begin

section \<open>Go values the wrapper handles\<close>

text \<open>
  The repository holds two snapshots of the driver wrapper: the later one (with the
  \<open>AllowRoot\<close> option) is the second half of \<open>src/options.go\<close>, the earlier one
  (with the long-lived transaction span) is \<open>src/driver.go\<close>. Definitions without a
  suffix follow \<open>src/options.go\<close>; definitions ending in \<open>_driver_go\<close> follow
  \<open>src/driver.go\<close>.

  A Go string is a sequence of bytes, and so is an Isabelle \<open>string\<close>: \<open>len\<close> and
  slicing count bytes.
\<close>

type_synonym int64 = "64 word"

text \<open>A \<open>float64\<close> is its IEEE-754 bit pattern; formatting it is left to \<open>fmt\<close>.\<close>

type_synonym float64 = "64 word"

text \<open>A value of any other dynamic type, known only through \<open>fmt\<close>.\<close>

typedecl dynamic

text \<open>
  The dynamic types that \<open>argToAttr\<close> switches on. A Go \<open>string\<close> has no case of its
  own in that switch: it is kept apart from \<open>VOther\<close> only because its \<open>%v\<close> rendering
  is the string itself.
\<close>

datatype Value =
    VNil
  | VInt64 int64
  | VFloat64 float64
  | VBool bool
  | VBytes string
  | VString string
  | VOther dynamic

text \<open>\<open>driver.NamedValue\<close>; \<open>Ordinal\<close> is a Go \<open>int\<close>.\<close>

record NamedValue =
  nv_Name :: string
  nv_Ordinal :: int
  nv_Value :: Value

text \<open>
  The two \<open>fmt.Sprintf\<close> renderings the encoder needs (\<open>"%f"\<close> of a \<open>float64\<close>,
  \<open>"%v"\<close> of a value of another type) belong to the Go standard library and are
  parameters of the model.
\<close>

record Fmt =
  Sprintf_f :: "float64 \<Rightarrow> string"
  Sprintf_v_dynamic :: "dynamic \<Rightarrow> string"

section \<open>Errors\<close>

text \<open>
  An \<open>error\<close> is one of the sentinel values the source compares against (by identity)
  or any other error, which carries its message. \<open>nil\<close> is \<open>None\<close> of \<open>error option\<close>.
\<close>

datatype error =
    context_Canceled
  | context_DeadlineExceeded
  | sql_ErrNoRows
  | sql_ErrTxDone
  | sql_ErrConnDone
  | io_EOF
  | driver_ErrSkip
  | errors_New string

text \<open>\<open>err.Error()\<close>; the sentinels' texts are those of the Go standard library.\<close>

fun Error :: "error \<Rightarrow> string" where
  "Error context_Canceled = ''context canceled''"
| "Error context_DeadlineExceeded = ''context deadline exceeded''"
| "Error sql_ErrNoRows = ''sql: no rows in result set''"
| "Error sql_ErrTxDone = ''sql: transaction has already been committed or rolled back''"
| "Error sql_ErrConnDone = ''sql: connection is already closed''"
| "Error io_EOF = ''EOF''"
| "Error driver_ErrSkip = ''driver: skip fast-path; continue as if unimplemented''"
| "Error (errors_New m) = m"

section \<open>Contexts and the tracing backend\<close>

type_synonym Span = nat

text \<open>
  A \<open>context.Context\<close>: one of the two empty contexts, a context derived by the tracer
  (\<open>trace.NewContext\<close>, inside \<open>trace.StartSpan\<close>), or a context the application derived
  with values of its own. The \<open>context\<close> package forbids the nil context, and
  \<open>database/sql\<close> never passes one; the type has none.
\<close>

datatype Context =
    Background
  | TODO
  | WithSpan Span Context
  | WithValue nat Context

fun FromContext :: "Context \<Rightarrow> Span option" where
  "FromContext Background = None"
| "FromContext TODO = None"
| "FromContext (WithSpan s c) = Some s"
| "FromContext (WithValue k c) = FromContext c"

datatype StatusCode =
    StatusCodeOK
  | StatusCodeCancelled
  | StatusCodeUnknown
  | StatusCodeDeadlineExceeded
  | StatusCodeNotFound
  | StatusCodeFailedPrecondition
  | StatusCodeAborted
  | StatusCodeUnavailable

record Status =
  Code :: StatusCode
  Message :: string

datatype Attribute =
    StringAttribute string string
  | Int64Attribute string int64
  | BoolAttribute string bool

text \<open>
  Everything the wrapper does to its two collaborators, in order: the calls to the
  tracing backend, and the calls to methods of the parent driver's objects (with the
  context handed over, for the methods that take one).
\<close>

datatype Event =
    EvStartSpan Span "Span option" string
  | EvAddAttributes Span "Attribute list"
  | EvSetStatus Span Status
  | EvEnd Span
  | EvCall string "Context option"

record World =
  nextSpan :: Span
  events :: "Event list"

definition emit :: "Event \<Rightarrow> World \<Rightarrow> World" where
  "emit e w = w\<lparr>events := events w @ [e]\<rparr>"

text \<open>\<open>trace.StartSpan(ctx, name)\<close>: a new span, child of the span \<open>ctx\<close> carries.\<close>

definition StartSpan :: "Context \<Rightarrow> string \<Rightarrow> World \<Rightarrow> (Context \<times> Span) \<times> World" where
  "StartSpan c name w =
     (let s = nextSpan w
      in ((WithSpan s c, s),
          w\<lparr>nextSpan := Suc s, events := events w @ [EvStartSpan s (FromContext c) name]\<rparr>))"

definition AddAttributes :: "Span \<Rightarrow> Attribute list \<Rightarrow> World \<Rightarrow> World" where
  "AddAttributes s attrs w = emit (EvAddAttributes s attrs) w"

definition SetStatus :: "Span \<Rightarrow> Status \<Rightarrow> World \<Rightarrow> World" where
  "SetStatus s st w = emit (EvSetStatus s st) w"

definition End :: "Span \<Rightarrow> World \<Rightarrow> World" where
  "End s w = emit (EvEnd s) w"

definition call :: "string \<Rightarrow> Context option \<Rightarrow> World \<Rightarrow> World" where
  "call m c w = emit (EvCall m c) w"

definition attrMissingContext :: Attribute where
  "attrMissingContext = StringAttribute ''ocsql.warning'' ''missing upstream context''"

definition attrDeprecated :: Attribute where
  "attrDeprecated = StringAttribute ''ocsql.warning'' ''database driver uses deprecated features''"

section \<open>Options\<close>

record TraceOptions =
  AllowRoot :: bool
  Transaction :: bool
  Ping :: bool
  RowsNext :: bool
  RowsClose :: bool
  RowsAffected :: bool
  LastInsertID :: bool
  Query :: bool
  QueryParams :: bool

text \<open>The zero value \<open>TraceOptions{}\<close>.\<close>

definition TraceOptions_zero :: TraceOptions where
  "TraceOptions_zero =
     \<lparr>AllowRoot = False, Transaction = False, Ping = False, RowsNext = False,
      RowsClose = False, RowsAffected = False, LastInsertID = False, Query = False,
      QueryParams = False\<rparr>"

definition TraceAll :: TraceOptions where
  "TraceAll =
     \<lparr>AllowRoot = True, Transaction = True, Ping = True, RowsNext = True,
      RowsClose = True, RowsAffected = True, LastInsertID = True, Query = True,
      QueryParams = True\<rparr>"

text \<open>A \<open>TraceOption\<close> is any function that updates the options in place.\<close>

type_synonym TraceOption = "TraceOptions \<Rightarrow> TraceOptions"

definition WithOptions :: "TraceOptions \<Rightarrow> TraceOption" where
  "WithOptions opts = (\<lambda>o'. opts)"

definition WithAllowRoot :: "bool \<Rightarrow> TraceOption" where
  "WithAllowRoot b = (\<lambda>o'. o'\<lparr>AllowRoot := b\<rparr>)"

definition WithTransaction :: "bool \<Rightarrow> TraceOption" where
  "WithTransaction b = (\<lambda>o'. o'\<lparr>Transaction := b\<rparr>)"

definition WithPing :: "bool \<Rightarrow> TraceOption" where
  "WithPing b = (\<lambda>o'. o'\<lparr>Ping := b\<rparr>)"

definition WithRowsNext :: "bool \<Rightarrow> TraceOption" where
  "WithRowsNext b = (\<lambda>o'. o'\<lparr>RowsNext := b\<rparr>)"

definition WithRowsClose :: "bool \<Rightarrow> TraceOption" where
  "WithRowsClose b = (\<lambda>o'. o'\<lparr>RowsClose := b\<rparr>)"

definition WithRowsAffected :: "bool \<Rightarrow> TraceOption" where
  "WithRowsAffected b = (\<lambda>o'. o'\<lparr>RowsAffected := b\<rparr>)"

definition WithLastInsertID :: "bool \<Rightarrow> TraceOption" where
  "WithLastInsertID b = (\<lambda>o'. o'\<lparr>LastInsertID := b\<rparr>)"

definition WithQuery :: "bool \<Rightarrow> TraceOption" where
  "WithQuery b = (\<lambda>o'. o'\<lparr>Query := b\<rparr>)"

definition WithQueryParams :: "bool \<Rightarrow> TraceOption" where
  "WithQueryParams b = (\<lambda>o'. o'\<lparr>QueryParams := b\<rparr>)"

section \<open>Status mapper\<close>

text \<open>
  \<open>setSpanStatus\<close>: the status it builds, then the call that records it. The message
  is set after the switch, for every non-nil error.
\<close>

definition statusOf :: "error option \<Rightarrow> Status" where
  "statusOf err =
     (case err of
        None \<Rightarrow> \<lparr>Code = StatusCodeOK, Message = []\<rparr>
      | Some e \<Rightarrow>
          \<lparr>Code =
             (if e = context_Canceled then StatusCodeCancelled
              else if e = context_DeadlineExceeded then StatusCodeDeadlineExceeded
              else if e = sql_ErrNoRows then StatusCodeNotFound
              else if e = sql_ErrTxDone \<or> e = sql_ErrConnDone then StatusCodeFailedPrecondition
              else StatusCodeUnknown),
           Message = Error e\<rparr>)"

definition setSpanStatus :: "Span \<Rightarrow> error option \<Rightarrow> World \<Rightarrow> World" where
  "setSpanStatus span err w = SetStatus span (statusOf err) w"

section \<open>Attribute encoder\<close>

definition digit :: "nat \<Rightarrow> char" where
  "digit n = ''0123456789'' ! n"

fun FormatUint :: "nat \<Rightarrow> string" where
  "FormatUint n = (if n < 10 then [digit n] else FormatUint (n div 10) @ [digit (n mod 10)])"

declare FormatUint.simps [simp del]

text \<open>\<open>strconv.Itoa\<close>: the decimal digits, after a minus sign for a negative number.\<close>

definition Itoa :: "int \<Rightarrow> string" where
  "Itoa i = (if i < 0 then CHR ''-'' # FormatUint (nat (- i)) else FormatUint (nat i))"

text \<open>
  \<open>argToAttr\<close>. The last two cases are the \<open>default\<close> case of the switch, with
  \<open>s\<close> the \<open>%v\<close> rendering of the value.
\<close>

definition argToAttr :: "Fmt \<Rightarrow> string \<Rightarrow> Value \<Rightarrow> Attribute" where
  "argToAttr F key val =
     (case val of
        VNil \<Rightarrow> StringAttribute key []
      | VInt64 v \<Rightarrow> Int64Attribute key v
      | VFloat64 v \<Rightarrow> StringAttribute key (Sprintf_f F v)
      | VBool v \<Rightarrow> BoolAttribute key v
      | VBytes v \<Rightarrow> StringAttribute key (if length v > 256 then take 256 v else v)
      | VString v \<Rightarrow>
          (let s = v
           in StringAttribute key (if length s > 256 then take 256 s else s))
      | VOther v \<Rightarrow>
          (let s = Sprintf_v_dynamic F v
           in StringAttribute key (if length s > 256 then take 256 s else s)))"

text \<open>The loop of \<open>paramsAttr\<close>, from index \<open>i\<close> on.\<close>

fun paramsAttr_from :: "Fmt \<Rightarrow> nat \<Rightarrow> Value list \<Rightarrow> Attribute list" where
  "paramsAttr_from F i [] = []"
| "paramsAttr_from F i (arg # args) =
     argToAttr F (''sql.arg'' @ Itoa (int i)) arg # paramsAttr_from F (Suc i) args"

definition paramsAttr :: "Fmt \<Rightarrow> Value list \<Rightarrow> Attribute list" where
  "paramsAttr F args = paramsAttr_from F 0 args"

definition namedKey :: "NamedValue \<Rightarrow> string" where
  "namedKey arg = (if nv_Name arg \<noteq> [] then nv_Name arg else ''sql.arg.'' @ Itoa (nv_Ordinal arg))"

fun namedParamsAttr :: "Fmt \<Rightarrow> NamedValue list \<Rightarrow> Attribute list" where
  "namedParamsAttr F [] = []"
| "namedParamsAttr F (arg # args) = argToAttr F (namedKey arg) (nv_Value arg) # namedParamsAttr F args"

section \<open>The parent driver's objects\<close>

text \<open>
  The objects of the wrapped driver, one record per tier, with one field per method.
  A method of an optional extension interface is \<open>None\<close> when the object's type does
  not implement the interface, so that a type assertion such as
  \<open>c.parent.(driver.Pinger)\<close> succeeds exactly when the field is \<open>Some\<close>. A method
  returning \<open>(x, error)\<close> follows the Go convention that \<open>x\<close> counts only when the
  error is nil: its result is \<open>Inl err\<close> or \<open>Inr x\<close>.
\<close>

record parent_result =
  result_LastInsertId :: "error + int64"
  result_RowsAffected :: "error + int64"

record parent_rows =
  rows_Columns :: "string list"
  rows_Close :: "error option"
  rows_Next :: "Value list \<Rightarrow> error option"

record parent_tx =
  tx_Commit :: "error option"
  tx_Rollback :: "error option"

record parent_stmt =
  stmt_Close :: "error option"
  stmt_NumInput :: int
  stmt_Exec :: "Value list \<Rightarrow> error + parent_result"
  stmt_Query :: "Value list \<Rightarrow> error + parent_rows"
  stmt_ExecContext :: "(Context \<Rightarrow> NamedValue list \<Rightarrow> error + parent_result) option"
  stmt_QueryContext :: "(Context \<Rightarrow> NamedValue list \<Rightarrow> error + parent_rows) option"

record TxOptions =
  Isolation :: int
  ReadOnly :: bool

record parent_conn =
  conn_Prepare :: "string \<Rightarrow> error + parent_stmt"
  conn_Close :: "error option"
  conn_Begin :: "error + parent_tx"
  conn_Ping :: "(Context \<Rightarrow> error option) option"
  conn_Exec :: "(string \<Rightarrow> Value list \<Rightarrow> error + parent_result) option"
  conn_ExecContext :: "(Context \<Rightarrow> string \<Rightarrow> NamedValue list \<Rightarrow> error + parent_result) option"
  conn_Query :: "(string \<Rightarrow> Value list \<Rightarrow> error + parent_rows) option"
  conn_QueryContext :: "(Context \<Rightarrow> string \<Rightarrow> NamedValue list \<Rightarrow> error + parent_rows) option"
  conn_PrepareContext :: "(Context \<Rightarrow> string \<Rightarrow> error + parent_stmt) option"
  conn_BeginTx :: "(Context \<Rightarrow> TxOptions \<Rightarrow> error + parent_tx) option"

record parent_driver =
  driver_Open :: "string \<Rightarrow> error + parent_conn"

section \<open>The wrapper's types\<close>

record ocDriver =
  d_parent :: parent_driver
  d_options :: TraceOptions

record ocConn =
  c_parent :: parent_conn
  c_options :: TraceOptions

record ocTx =
  t_parent :: parent_tx
  t_ctx :: Context
  t_options :: TraceOptions

record ocStmt =
  s_parent :: parent_stmt
  s_query :: string
  s_options :: TraceOptions

record ocResult =
  r_parent :: parent_result
  r_ctx :: Context
  r_options :: TraceOptions

record ocRows =
  rw_parent :: parent_rows
  rw_ctx :: Context
  rw_options :: TraceOptions

text \<open>
  What a method of the wrapper hands back as a \<open>driver.Result\<close>, \<open>driver.Rows\<close> or
  \<open>driver.Tx\<close>: the parent's own object, where the call is forwarded with a plain
  \<open>return\<close>, or a wrapper around it.
\<close>

datatype Result = Result_parent parent_result | Result_oc ocResult

datatype Rows = Rows_parent parent_rows | Rows_oc ocRows

datatype Tx = Tx_parent parent_tx | Tx_oc ocTx

text \<open>A \<open>driver.Conn\<close> the wrapper hands back is always a \<open>*ocConn\<close>.\<close>

datatype Conn = Conn_ocConn ocConn

text \<open>
  A \<open>driver.Stmt\<close> the wrapper hands back: a bare \<open>ocStmt\<close>, or one of the four
  anonymous structs of \<open>wrapStmt\<close>, which embed the interfaces \<open>driver.Stmt\<close>,
  \<open>driver.StmtExecContext\<close> (E) and \<open>driver.StmtQueryContext\<close> (Q), each field holding
  the same \<open>ocStmt\<close>.
\<close>

datatype Stmt =
    Stmt_ocStmt ocStmt
  | Stmt_struct ocStmt
  | Stmt_struct_Q ocStmt ocStmt
  | Stmt_struct_E ocStmt ocStmt
  | Stmt_struct_EQ ocStmt ocStmt ocStmt

text \<open>The error of a result, \<open>nil\<close> when there is none.\<close>

definition error_of :: "error + 'a \<Rightarrow> error option" where
  "error_of r = (case r of Inl err \<Rightarrow> Some err | Inr x \<Rightarrow> None)"

section \<open>Wrap and the driver tier\<close>

text \<open>The loop of \<open>Wrap\<close> that runs every option on \<open>TraceOptions{}\<close>.\<close>

definition applyOptions :: "TraceOption list \<Rightarrow> TraceOptions" where
  "applyOptions options = foldl (\<lambda>o' option. option o') TraceOptions_zero options"

definition Wrap :: "parent_driver \<Rightarrow> TraceOption list \<Rightarrow> ocDriver" where
  "Wrap d options =
     (let o1 = applyOptions options;
          o2 = (if QueryParams o1 \<and> \<not> Query o1 then o1\<lparr>QueryParams := False\<rparr> else o1)
      in \<lparr>d_parent = d, d_options = o2\<rparr>)"

definition ocDriver_Open :: "ocDriver \<Rightarrow> string \<Rightarrow> World \<Rightarrow> (error + Conn) \<times> World" where
  "ocDriver_Open d name w =
     (let w1 = call ''Driver.Open'' None w
      in case driver_Open (d_parent d) name of
           Inl err \<Rightarrow> (Inl err, w1)
         | Inr c \<Rightarrow> (Inr (Conn_ocConn \<lparr>c_parent = c, c_options = d_options d\<rparr>), w1))"

section \<open>wrapStmt\<close>

text \<open>
  The four cases of the switch cover every pair of probe results, so the
  \<open>panic("unreachable")\<close> after it is never run.
\<close>

definition wrapStmt :: "parent_stmt \<Rightarrow> string \<Rightarrow> TraceOptions \<Rightarrow> Stmt" where
  "wrapStmt stmt query options =
     (let s = \<lparr>s_parent = stmt, s_query = query, s_options = options\<rparr>;
          hasExeCtx = (stmt_ExecContext stmt \<noteq> None);
          hasQryCtx = (stmt_QueryContext stmt \<noteq> None)
      in case (hasExeCtx, hasQryCtx) of
           (False, False) \<Rightarrow> Stmt_struct s
         | (False, True) \<Rightarrow> Stmt_struct_Q s s
         | (True, False) \<Rightarrow> Stmt_struct_E s s
         | (True, True) \<Rightarrow> Stmt_struct_EQ s s s)"

section \<open>The connection tier\<close>

text \<open>
  Each method takes the state of the two collaborators and returns it updated. A
  deferred function runs after the result is set: it is the last step of each path.
\<close>

definition ocConn_Ping :: "ocConn \<Rightarrow> Context \<Rightarrow> World \<Rightarrow> error option \<times> World" where
  "ocConn_Ping c ctx w =
     (if Ping (c_options c) \<and> (AllowRoot (c_options c) \<or> FromContext ctx \<noteq> None) then
        (let ((ctx1, span), w1) = StartSpan ctx ''sql:ping'' w;
             (err, w2) =
               (case conn_Ping (c_parent c) of
                  Some ping \<Rightarrow> (ping ctx1, call ''Pinger.Ping'' (Some ctx1) w1)
                | None \<Rightarrow> (None, w1));
             w3 =
               SetStatus span
                 (case err of
                    Some e \<Rightarrow> \<lparr>Code = StatusCodeUnavailable, Message = Error e\<rparr>
                  | None \<Rightarrow> \<lparr>Code = StatusCodeOK, Message = []\<rparr>)
                 w2
         in (err, End span w3))
      else
        (case conn_Ping (c_parent c) of
           Some ping \<Rightarrow> (ping ctx, call ''Pinger.Ping'' (Some ctx) w)
         | None \<Rightarrow> (None, w)))"

definition ocConn_Exec ::
    "Fmt \<Rightarrow> ocConn \<Rightarrow> string \<Rightarrow> Value list \<Rightarrow> World \<Rightarrow> (error + Result) \<times> World" where
  "ocConn_Exec F c query args w =
     (case conn_Exec (c_parent c) of
        Some exec \<Rightarrow>
          if \<not> AllowRoot (c_options c) then
            (map_sum id Result_parent (exec query args), call ''Execer.Exec'' None w)
          else
            (let ((ctx, span), w1) = StartSpan Background ''sql:exec'' w;
                 attrs =
                   [attrDeprecated,
                    StringAttribute ''ocsql.deprecated'' ''driver does not support ExecerContext'']
                   @ (if Query (c_options c) then
                        [StringAttribute ''sql.query'' query]
                        @ (if QueryParams (c_options c) then paramsAttr F args else [])
                      else []);
                 w2 = AddAttributes span attrs w1;
                 w3 = call ''Execer.Exec'' None w2;
                 r = exec query args
             in (case r of
                   Inl err \<Rightarrow> Inl err
                 | Inr res \<Rightarrow>
                     Inr (Result_oc \<lparr>r_parent = res, r_ctx = ctx, r_options = c_options c\<rparr>),
                 End span (setSpanStatus span (error_of r) w3)))
      | None \<Rightarrow> (Inl driver_ErrSkip, w))"

definition ocConn_ExecContext ::
    "Fmt \<Rightarrow> ocConn \<Rightarrow> Context \<Rightarrow> string \<Rightarrow> NamedValue list \<Rightarrow> World \<Rightarrow> (error + Result) \<times> World" where
  "ocConn_ExecContext F c ctx query args w =
     (case conn_ExecContext (c_parent c) of
        Some execCtx \<Rightarrow>
          (let parentSpan = FromContext ctx
           in if \<not> AllowRoot (c_options c) \<and> parentSpan = None then
                (map_sum id Result_parent (execCtx ctx query args),
                 call ''ExecerContext.ExecContext'' (Some ctx) w)
              else
                (let ((ctx1, span), w1) =
                       (if parentSpan = None then StartSpan ctx ''sql:exec'' w
                        else (let ((ctx', span'), w') = StartSpan ctx ''sql:exec'' w
                              in ((ctx, span'), w')));
                     w2 =
                       (if Query (c_options c) then
                          AddAttributes span
                            ([StringAttribute ''sql.query'' query]
                             @ (if QueryParams (c_options c) then namedParamsAttr F args else []))
                            w1
                        else w1);
                     w3 = call ''ExecerContext.ExecContext'' (Some ctx1) w2;
                     r = execCtx ctx1 query args
                 in (case r of
                       Inl err \<Rightarrow> Inl err
                     | Inr res \<Rightarrow>
                         Inr (Result_oc \<lparr>r_parent = res, r_ctx = ctx1, r_options = c_options c\<rparr>),
                     End span (setSpanStatus span (error_of r) w3))))
      | None \<Rightarrow> (Inl driver_ErrSkip, w))"

definition ocConn_Query ::
    "Fmt \<Rightarrow> ocConn \<Rightarrow> string \<Rightarrow> Value list \<Rightarrow> World \<Rightarrow> (error + Rows) \<times> World" where
  "ocConn_Query F c query args w =
     (case conn_Query (c_parent c) of
        Some queryer \<Rightarrow>
          if \<not> AllowRoot (c_options c) then
            (map_sum id Rows_parent (queryer query args), call ''Queryer.Query'' None w)
          else
            (let ((ctx, span), w1) = StartSpan Background ''sql:query'' w;
                 attrs =
                   [attrDeprecated,
                    StringAttribute ''ocsql.deprecated'' ''driver does not support QueryerContext'']
                   @ (if Query (c_options c) then
                        [StringAttribute ''sql.query'' query]
                        @ (if QueryParams (c_options c) then paramsAttr F args else [])
                      else []);
                 w2 = AddAttributes span attrs w1;
                 w3 = call ''Queryer.Query'' None w2;
                 r = queryer query args
             in (case r of
                   Inl err \<Rightarrow> Inl err
                 | Inr rows \<Rightarrow>
                     Inr (Rows_oc \<lparr>rw_parent = rows, rw_ctx = ctx, rw_options = c_options c\<rparr>),
                 End span (setSpanStatus span (error_of r) w3)))
      | None \<Rightarrow> (Inl driver_ErrSkip, w))"

definition ocConn_QueryContext ::
    "Fmt \<Rightarrow> ocConn \<Rightarrow> Context \<Rightarrow> string \<Rightarrow> NamedValue list \<Rightarrow> World \<Rightarrow> (error + Rows) \<times> World" where
  "ocConn_QueryContext F c ctx query args w =
     (case conn_QueryContext (c_parent c) of
        Some queryerCtx \<Rightarrow>
          (let parentSpan = FromContext ctx
           in if \<not> AllowRoot (c_options c) \<and> parentSpan = None then
                (map_sum id Rows_parent (queryerCtx ctx query args),
                 call ''QueryerContext.QueryContext'' (Some ctx) w)
              else
                (let ((ctx1, span), w1) =
                       (if parentSpan = None then StartSpan ctx ''sql:query'' w
                        else (let ((ctx', span'), w') = StartSpan ctx ''sql:query'' w
                              in ((ctx, span'), w')));
                     w2 =
                       (if Query (c_options c) then
                          AddAttributes span
                            ([StringAttribute ''sql.query'' query]
                             @ (if QueryParams (c_options c) then namedParamsAttr F args else []))
                            w1
                        else w1);
                     w3 = call ''QueryerContext.QueryContext'' (Some ctx1) w2;
                     r = queryerCtx ctx1 query args
                 in (case r of
                       Inl err \<Rightarrow> Inl err
                     | Inr rows \<Rightarrow>
                         Inr (Rows_oc \<lparr>rw_parent = rows, rw_ctx = ctx1, rw_options = c_options c\<rparr>),
                     End span (setSpanStatus span (error_of r) w3))))
      | None \<Rightarrow> (Inl driver_ErrSkip, w))"

definition ocConn_Prepare :: "ocConn \<Rightarrow> string \<Rightarrow> World \<Rightarrow> (error + Stmt) \<times> World" where
  "ocConn_Prepare c query w =
     (let (deferred, w1) =
            (if AllowRoot (c_options c) then
               (let ((ctx', span), w') = StartSpan Background ''sql:prepare'' w;
                    attrs =
                      [attrMissingContext]
                      @ (if Query (c_options c) then [StringAttribute ''sql.query'' query] else [])
                in (Some span, AddAttributes span attrs w'))
             else (None, w));
          w2 = call ''Conn.Prepare'' None w1;
          r = conn_Prepare (c_parent c) query;
          w3 = (case deferred of Some span \<Rightarrow> End span (setSpanStatus span (error_of r) w2) | None \<Rightarrow> w2)
      in (case r of
            Inl err \<Rightarrow> Inl err
          | Inr stmt \<Rightarrow>
              Inr (wrapStmt stmt query (c_options c)),
          w3))"

definition ocConn_Close :: "ocConn \<Rightarrow> World \<Rightarrow> error option \<times> World" where
  "ocConn_Close c w = (conn_Close (c_parent c), call ''Conn.Close'' None w)"

definition ocConn_PrepareContext ::
    "ocConn \<Rightarrow> Context \<Rightarrow> string \<Rightarrow> World \<Rightarrow> (error + Stmt) \<times> World" where
  "ocConn_PrepareContext c ctx query w =
     (let (span, ctx1, w1) =
            (if AllowRoot (c_options c) \<or> FromContext ctx \<noteq> None then
               (let ((ctx', span'), w') = StartSpan ctx ''sql:prepare'' w;
                    w'' =
                      (if Query (c_options c) then
                         AddAttributes span' [StringAttribute ''sql.query'' query] w'
                       else w')
                in (Some span', ctx', w''))
             else (None, ctx, w));
          (r, w2) =
            (case conn_PrepareContext (c_parent c) of
               Some prepCtx \<Rightarrow>
                 (prepCtx ctx1 query, call ''ConnPrepareContext.PrepareContext'' (Some ctx1) w1)
             | None \<Rightarrow>
                 (conn_Prepare (c_parent c) query,
                  call ''Conn.Prepare'' None
                    (case span of
                       Some span' \<Rightarrow> AddAttributes span' [attrMissingContext] w1
                     | None \<Rightarrow> w1)));
          w3 = (case span of Some span' \<Rightarrow> End span' (setSpanStatus span' (error_of r) w2) | None \<Rightarrow> w2)
      in (case r of
            Inl err \<Rightarrow> Inl err
          | Inr stmt \<Rightarrow>
              Inr (wrapStmt stmt query (c_options c)),
          w3))"

text \<open>
  \<open>BeginTx\<close>. The transaction wrapper is built as \<open>ocTx{parent: tx, ctx: ctx}\<close>: its
  \<open>options\<close> field keeps the zero value.
\<close>

definition ocConn_BeginTx ::
    "ocConn \<Rightarrow> Context \<Rightarrow> TxOptions \<Rightarrow> World \<Rightarrow> (error + Tx) \<times> World" where
  "ocConn_BeginTx c ctx opts w =
     (if \<not> AllowRoot (c_options c) \<and> FromContext ctx = None then
        (case conn_BeginTx (c_parent c) of
           Some connBeginTx \<Rightarrow>
             (map_sum id Tx_parent (connBeginTx ctx opts), call ''ConnBeginTx.BeginTx'' (Some ctx) w)
         | None \<Rightarrow> (map_sum id Tx_parent (conn_Begin (c_parent c)), call ''Conn.Begin'' None w))
      else
        (let (ctx1, span, w1) =
               (if ctx = TODO then
                  (let ((ctx', span'), w') = StartSpan Background ''sql:begin_transaction'' w
                   in (Background, span', AddAttributes span' [attrMissingContext] w'))
                else
                  (let ((ctx', span'), w') = StartSpan ctx ''sql:begin_transaction'' w
                   in (ctx, span', w')))
         in case conn_BeginTx (c_parent c) of
              Some connBeginTx \<Rightarrow>
                (let w2 = call ''ConnBeginTx.BeginTx'' (Some ctx1) w1;
                     r = connBeginTx ctx1 opts;
                     w3 = setSpanStatus span (error_of r) w2
                 in (case r of
                       Inl err \<Rightarrow> Inl err
                     | Inr tx \<Rightarrow>
                         Inr (Tx_oc \<lparr>t_parent = tx, t_ctx = ctx1, t_options = TraceOptions_zero\<rparr>),
                     End span w3))
            | None \<Rightarrow>
                (let w2 = AddAttributes span [attrDeprecated] w1;
                     w3 =
                       AddAttributes span
                         [StringAttribute ''ocsql.deprecated'' ''driver does not support ConnBeginTx'']
                         w2;
                     w4 = call ''Conn.Begin'' None w3;
                     r = conn_Begin (c_parent c);
                     w5 = setSpanStatus span (error_of r) w4
                 in (case r of
                       Inl err \<Rightarrow> Inl err
                     | Inr tx \<Rightarrow>
                         Inr (Tx_oc \<lparr>t_parent = tx, t_ctx = ctx1, t_options = TraceOptions_zero\<rparr>),
                     End span w5))))"

definition ocConn_Begin :: "ocConn \<Rightarrow> World \<Rightarrow> (error + Tx) \<times> World" where
  "ocConn_Begin c w = ocConn_BeginTx c TODO \<lparr>Isolation = 0, ReadOnly = False\<rparr> w"

section \<open>The result, statement, rows and transaction tiers\<close>

definition ocResult_LastInsertId :: "ocResult \<Rightarrow> World \<Rightarrow> (error + int64) \<times> World" where
  "ocResult_LastInsertId r w =
     (let (deferred, w1) =
            (if LastInsertID (r_options r) then
               (let ((ctx', span), w') = StartSpan (r_ctx r) ''sql:last_insert_id'' w
                in (Some span, w'))
             else (None, w));
          w2 = call ''Result.LastInsertId'' None w1;
          res = result_LastInsertId (r_parent r)
      in (res,
          case deferred of
            Some span \<Rightarrow> End span (setSpanStatus span (error_of res) w2)
          | None \<Rightarrow> w2))"

definition ocResult_RowsAffected :: "ocResult \<Rightarrow> World \<Rightarrow> (error + int64) \<times> World" where
  "ocResult_RowsAffected r w =
     (let (deferred, w1) =
            (if RowsAffected (r_options r) then
               (let ((ctx', span), w') = StartSpan (r_ctx r) ''sql:rows_affected'' w
                in (Some span, w'))
             else (None, w));
          w2 = call ''Result.RowsAffected'' None w1;
          res = result_RowsAffected (r_parent r)
      in (res,
          case deferred of
            Some span \<Rightarrow> End span (setSpanStatus span (error_of res) w2)
          | None \<Rightarrow> w2))"

definition ocStmt_Exec ::
    "Fmt \<Rightarrow> ocStmt \<Rightarrow> Value list \<Rightarrow> World \<Rightarrow> (error + Result) \<times> World" where
  "ocStmt_Exec F s args w =
     (if \<not> AllowRoot (s_options s) then
        (map_sum id Result_parent (stmt_Exec (s_parent s) args), call ''Stmt.Exec'' None w)
      else
        (let ((ctx, span), w1) = StartSpan Background ''sql:exec'' w;
             attrs =
               [attrDeprecated,
                StringAttribute ''ocsql.deprecated'' ''driver does not support StmtExecContext'']
               @ (if Query (s_options s) then
                    [StringAttribute ''sql.query'' (s_query s)]
                    @ (if QueryParams (s_options s) then paramsAttr F args else [])
                  else []);
             w2 = AddAttributes span attrs w1;
             w3 = call ''Stmt.Exec'' None w2;
             r = stmt_Exec (s_parent s) args
         in (case r of
               Inl err \<Rightarrow> Inl err
             | Inr res \<Rightarrow>
                 Inr (Result_oc \<lparr>r_parent = res, r_ctx = ctx, r_options = s_options s\<rparr>),
             End span (setSpanStatus span (error_of r) w3))))"

definition ocStmt_Close :: "ocStmt \<Rightarrow> World \<Rightarrow> error option \<times> World" where
  "ocStmt_Close s w = (stmt_Close (s_parent s), call ''Stmt.Close'' None w)"

definition ocStmt_NumInput :: "ocStmt \<Rightarrow> World \<Rightarrow> int \<times> World" where
  "ocStmt_NumInput s w = (stmt_NumInput (s_parent s), call ''Stmt.NumInput'' None w)"

definition ocStmt_Query ::
    "Fmt \<Rightarrow> ocStmt \<Rightarrow> Value list \<Rightarrow> World \<Rightarrow> (error + Rows) \<times> World" where
  "ocStmt_Query F s args w =
     (if \<not> AllowRoot (s_options s) then
        (map_sum id Rows_parent (stmt_Query (s_parent s) args), call ''Stmt.Query'' None w)
      else
        (let ((ctx, span), w1) = StartSpan Background ''sql:query'' w;
             attrs =
               [attrDeprecated,
                StringAttribute ''ocsql.deprecated'' ''driver does not support StmtQueryContext'']
               @ (if Query (s_options s) then
                    [StringAttribute ''sql.query'' (s_query s)]
                    @ (if QueryParams (s_options s) then paramsAttr F args else [])
                  else []);
             w2 = AddAttributes span attrs w1;
             w3 = call ''Stmt.Query'' None w2;
             r = stmt_Query (s_parent s) args
         in (case r of
               Inl err \<Rightarrow> Inl err
             | Inr rows \<Rightarrow>
                 Inr (Rows_oc \<lparr>rw_parent = rows, rw_ctx = ctx, rw_options = s_options s\<rparr>),
             End span (setSpanStatus span (error_of r) w3))))"

text \<open>
  \<open>ExecContext\<close> and \<open>QueryContext\<close> of a statement assert the parent's type without
  a check (\<open>s.parent.(driver.StmtExecContext)\<close>): where the parent has no such method
  the call panics, and the result is \<open>None\<close>. A function deferred before the panic
  still runs, with \<open>err\<close> still nil.
\<close>

definition ocStmt_ExecContext ::
    "Fmt \<Rightarrow> ocStmt \<Rightarrow> Context \<Rightarrow> NamedValue list \<Rightarrow> World \<Rightarrow> (error + Result) option \<times> World" where
  "ocStmt_ExecContext F s ctx args w =
     (let parentSpan = FromContext ctx
      in if \<not> AllowRoot (s_options s) \<and> parentSpan = None then
           (case stmt_ExecContext (s_parent s) of
              None \<Rightarrow> (None, w)
            | Some execContext \<Rightarrow>
                (Some (map_sum id Result_parent (execContext ctx args)),
                 call ''StmtExecContext.ExecContext'' (Some ctx) w))
         else
           (let ((ctx1, span), w1) =
                  (if parentSpan = None then StartSpan ctx ''sql:exec'' w
                   else (let ((ctx', span'), w') = StartSpan ctx ''sql:exec'' w
                         in ((ctx, span'), w')));
                w2 =
                  (if Query (s_options s) then
                     AddAttributes span
                       ([StringAttribute ''sql.query'' (s_query s)]
                        @ (if QueryParams (s_options s) then namedParamsAttr F args else []))
                       w1
                   else w1)
            in case stmt_ExecContext (s_parent s) of
                 None \<Rightarrow> (None, End span (setSpanStatus span None w2))
               | Some execContext \<Rightarrow>
                   (let w3 = call ''StmtExecContext.ExecContext'' (Some ctx1) w2;
                        r = execContext ctx1 args
                    in (Some (case r of
                                Inl err \<Rightarrow> Inl err
                              | Inr res \<Rightarrow>
                                  Inr (Result_oc
                                    \<lparr>r_parent = res, r_ctx = ctx1, r_options = s_options s\<rparr>)),
                        End span (setSpanStatus span (error_of r) w3)))))"

definition ocStmt_QueryContext ::
    "Fmt \<Rightarrow> ocStmt \<Rightarrow> Context \<Rightarrow> NamedValue list \<Rightarrow> World \<Rightarrow> (error + Rows) option \<times> World" where
  "ocStmt_QueryContext F s ctx args w =
     (let parentSpan = FromContext ctx
      in if \<not> AllowRoot (s_options s) \<and> parentSpan = None then
           (case stmt_QueryContext (s_parent s) of
              None \<Rightarrow> (None, w)
            | Some queryContext \<Rightarrow>
                (Some (map_sum id Rows_parent (queryContext ctx args)),
                 call ''StmtQueryContext.QueryContext'' (Some ctx) w))
         else
           (let ((ctx1, span), w1) =
                  (if parentSpan = None then StartSpan ctx ''sql:query'' w
                   else (let ((ctx', span'), w') = StartSpan ctx ''sql:query'' w
                         in ((ctx, span'), w')));
                w2 =
                  (if Query (s_options s) then
                     AddAttributes span
                       ([StringAttribute ''sql.query'' (s_query s)]
                        @ (if QueryParams (s_options s) then namedParamsAttr F args else []))
                       w1
                   else w1)
            in case stmt_QueryContext (s_parent s) of
                 None \<Rightarrow> (None, End span (setSpanStatus span None w2))
               | Some queryContext \<Rightarrow>
                   (let w3 = call ''StmtQueryContext.QueryContext'' (Some ctx1) w2;
                        r = queryContext ctx1 args
                    in (Some (case r of
                                Inl err \<Rightarrow> Inl err
                              | Inr rows \<Rightarrow>
                                  Inr (Rows_oc
                                    \<lparr>rw_parent = rows, rw_ctx = ctx1, rw_options = s_options s\<rparr>)),
                        End span (setSpanStatus span (error_of r) w3)))))"

definition ocRows_Columns :: "ocRows \<Rightarrow> World \<Rightarrow> string list \<times> World" where
  "ocRows_Columns r w = (rows_Columns (rw_parent r), call ''Rows.Columns'' None w)"

definition ocRows_Close :: "ocRows \<Rightarrow> World \<Rightarrow> error option \<times> World" where
  "ocRows_Close r w =
     (let (deferred, w1) =
            (if RowsClose (rw_options r) then
               (let ((ctx', span), w') = StartSpan (rw_ctx r) ''sql:rows_close'' w
                in (Some span, w'))
             else (None, w));
          w2 = call ''Rows.Close'' None w1;
          err = rows_Close (rw_parent r)
      in (err,
          case deferred of
            Some span \<Rightarrow> End span (setSpanStatus span err w2)
          | None \<Rightarrow> w2))"

definition ocRows_Next :: "ocRows \<Rightarrow> Value list \<Rightarrow> World \<Rightarrow> error option \<times> World" where
  "ocRows_Next r dest w =
     (let (deferred, w1) =
            (if RowsNext (rw_options r) then
               (let ((ctx', span), w') = StartSpan (rw_ctx r) ''sql:rows_next'' w
                in (Some span, w'))
             else (None, w));
          w2 = call ''Rows.Next'' None w1;
          err = rows_Next (rw_parent r) dest
      in (err,
          case deferred of
            Some span \<Rightarrow>
              End span
                (if err = Some io_EOF then setSpanStatus span None w2
                 else setSpanStatus span err w2)
          | None \<Rightarrow> w2))"

definition ocTx_Commit :: "ocTx \<Rightarrow> World \<Rightarrow> error option \<times> World" where
  "ocTx_Commit t w =
     (let ((ctx', span), w1) = StartSpan (t_ctx t) ''sql:commit'' w;
          w2 = call ''Tx.Commit'' None w1;
          err = tx_Commit (t_parent t)
      in (err, End span (setSpanStatus span err w2)))"

definition ocTx_Rollback :: "ocTx \<Rightarrow> World \<Rightarrow> error option \<times> World" where
  "ocTx_Rollback t w =
     (let ((ctx', span), w1) = StartSpan (t_ctx t) ''sql:rollback'' w;
          w2 = call ''Tx.Rollback'' None w1;
          err = tx_Rollback (t_parent t)
      in (err, End span (setSpanStatus span err w2)))"

section \<open>The earlier snapshot: \<open>src/driver.go\<close>\<close>

text \<open>
  \<open>PrepareContext\<close> of \<open>src/driver.go\<close> opens its span whatever the options are, and
  hands back the \<open>ocStmt\<close> itself, not \<open>wrapStmt\<close> of the parent's statement.
\<close>

definition ocConn_PrepareContext_driver_go ::
    "ocConn \<Rightarrow> Context \<Rightarrow> string \<Rightarrow> World \<Rightarrow> (error + Stmt) \<times> World" where
  "ocConn_PrepareContext_driver_go c ctx query w =
     (let ((ctx', span), w1) = StartSpan ctx ''sql:prepare'' w;
          (r, w2) =
            (case conn_PrepareContext (c_parent c) of
               Some prepCtx \<Rightarrow>
                 (prepCtx ctx query, call ''ConnPrepareContext.PrepareContext'' (Some ctx) w1)
             | None \<Rightarrow>
                 (conn_Prepare (c_parent c) query,
                  call ''Conn.Prepare'' None (AddAttributes span [attrMissingContext] w1)));
          w3 = End span (setSpanStatus span (error_of r) w2)
      in (case r of
            Inl err \<Rightarrow> Inl err
          | Inr stmt \<Rightarrow>
              Inr (Stmt_ocStmt \<lparr>s_parent = stmt, s_query = query, s_options = c_options c\<rparr>),
          w3))"

definition ocConn_Prepare_driver_go :: "ocConn \<Rightarrow> string \<Rightarrow> World \<Rightarrow> (error + Stmt) \<times> World" where
  "ocConn_Prepare_driver_go c query w =
     (let ((ctx', span), w1) = StartSpan Background ''sql:prepare'' w;
          w2 = call ''Conn.Prepare'' None w1;
          r = conn_Prepare (c_parent c) query;
          w3 = End span (setSpanStatus span (error_of r) w2)
      in (case r of
            Inl err \<Rightarrow> Inl err
          | Inr stmt \<Rightarrow>
              Inr (wrapStmt stmt query (c_options c)),
          w3))"

text \<open>
  \<open>BeginTx\<close> of \<open>src/driver.go\<close>: with the \<open>Transaction\<close> option, a long-lived span
  \<open>sql:transaction\<close> is opened first and travels in the context of the transaction. The
  wrapper is built as \<open>ocTx{parent: tx, ctx: ctx}\<close>: its \<open>options\<close> field keeps the zero
  value.
\<close>

definition ocConn_BeginTx_driver_go ::
    "ocConn \<Rightarrow> Context \<Rightarrow> TxOptions \<Rightarrow> World \<Rightarrow> (error + Tx) \<times> World" where
  "ocConn_BeginTx_driver_go c ctx opts w =
     (let (ctx0, w0) =
            (if Transaction (c_options c) then
               (if ctx = TODO then
                  (let ((ctx', appSpan), w') = StartSpan Background ''sql:transaction'' w
                   in (ctx', AddAttributes appSpan [attrMissingContext] w'))
                else
                  (let ((ctx', appSpan), w') = StartSpan ctx ''sql:transaction'' w
                   in (ctx', w')))
             else (ctx, w));
          (ctx1, span, w1) =
            (if ctx0 = TODO then
               (let ((ctx', span'), w') = StartSpan Background ''sql:begin_transaction'' w0
                in (Background, span', AddAttributes span' [attrMissingContext] w'))
             else
               (let ((ctx', span'), w') = StartSpan ctx0 ''sql:begin_transaction'' w0
                in (ctx0, span', w')))
      in case conn_BeginTx (c_parent c) of
           Some connBeginTx \<Rightarrow>
             (let w2 = call ''ConnBeginTx.BeginTx'' (Some ctx1) w1;
                  r = connBeginTx ctx1 opts;
                  w3 = setSpanStatus span (error_of r) w2
              in (case r of
                    Inl err \<Rightarrow> Inl err
                  | Inr tx \<Rightarrow>
                      Inr (Tx_oc \<lparr>t_parent = tx, t_ctx = ctx1, t_options = TraceOptions_zero\<rparr>),
                  End span w3))
         | None \<Rightarrow>
             (let w2 = AddAttributes span [attrDeprecated] w1;
                  w3 =
                    AddAttributes span
                      [StringAttribute ''ocsql.deprecated'' ''driver does not support ConnBeginTx'']
                      w2;
                  w4 = call ''Conn.Begin'' None w3;
                  r = conn_Begin (c_parent c);
                  w5 = setSpanStatus span (error_of r) w4
              in (case r of
                    Inl err \<Rightarrow> Inl err
                  | Inr tx \<Rightarrow>
                      Inr (Tx_oc \<lparr>t_parent = tx, t_ctx = ctx1, t_options = TraceOptions_zero\<rparr>),
                  End span w5)))"

text \<open>
  \<open>Commit\<close> and \<open>Rollback\<close> of \<open>src/driver.go\<close>. Deferred functions run last in, first
  out: the one of the operation span, then (with \<open>t.options.Transaction\<close>) the one of the
  span the context of the transaction carries.
\<close>

definition ocTx_Commit_driver_go :: "ocTx \<Rightarrow> World \<Rightarrow> error option \<times> World" where
  "ocTx_Commit_driver_go t w =
     (let ((ctx', span), w1) = StartSpan (t_ctx t) ''sql:commit'' w;
          w2 = call ''Tx.Commit'' None w1;
          err = tx_Commit (t_parent t);
          w3 = End span (setSpanStatus span err w2);
          w4 =
            (if Transaction (t_options t) then
               (case FromContext (t_ctx t) of
                  Some txSpan \<Rightarrow>
                    End txSpan
                      (setSpanStatus txSpan err
                         (SetStatus txSpan \<lparr>Code = StatusCodeOK, Message = []\<rparr> w3))
                | None \<Rightarrow> w3)
             else w3)
      in (err, w4))"

definition ocTx_Rollback_driver_go :: "ocTx \<Rightarrow> World \<Rightarrow> error option \<times> World" where
  "ocTx_Rollback_driver_go t w =
     (let ((ctx', span), w1) = StartSpan (t_ctx t) ''sql:rollback'' w;
          w2 = call ''Tx.Rollback'' None w1;
          err = tx_Rollback (t_parent t);
          w3 = End span (setSpanStatus span err w2);
          w4 =
            (if Transaction (t_options t) then
               (case FromContext (t_ctx t) of
                  Some txSpan \<Rightarrow>
                    End txSpan
                      (if err = None then
                         SetStatus txSpan
                           \<lparr>Code = StatusCodeAborted, Message = ''transaction rollback''\<rparr> w3
                       else setSpanStatus txSpan err w3)
                | None \<Rightarrow> w3)
             else w3)
      in (err, w4))"

section \<open>Which optional interfaces a value satisfies\<close>

text \<open>
  A Go value satisfies an interface when the method set of its dynamic type holds the
  interface's methods. Each optional interface of \<open>database/sql/driver\<close> that the
  wrapper knows has one method.
\<close>

datatype ConnExt =
    Pinger
  | Execer
  | ExecerContext
  | Queryer
  | QueryerContext
  | ConnPrepareContext
  | ConnBeginTx

datatype StmtExt = StmtExecContext | StmtQueryContext

fun ConnExt_method :: "ConnExt \<Rightarrow> string" where
  "ConnExt_method Pinger = ''Ping''"
| "ConnExt_method Execer = ''Exec''"
| "ConnExt_method ExecerContext = ''ExecContext''"
| "ConnExt_method Queryer = ''Query''"
| "ConnExt_method QueryerContext = ''QueryContext''"
| "ConnExt_method ConnPrepareContext = ''PrepareContext''"
| "ConnExt_method ConnBeginTx = ''BeginTx''"

fun StmtExt_method :: "StmtExt \<Rightarrow> string" where
  "StmtExt_method StmtExecContext = ''ExecContext''"
| "StmtExt_method StmtQueryContext = ''QueryContext''"

definition conn_exts :: "string list \<Rightarrow> ConnExt list" where
  "conn_exts methods =
     filter (\<lambda>e. ConnExt_method e \<in> set methods)
       [Pinger, Execer, ExecerContext, Queryer, QueryerContext, ConnPrepareContext, ConnBeginTx]"

definition stmt_exts :: "string list \<Rightarrow> StmtExt list" where
  "stmt_exts methods =
     filter (\<lambda>e. StmtExt_method e \<in> set methods) [StmtExecContext, StmtQueryContext]"

text \<open>The methods the source declares on \<open>*ocConn\<close> and on \<open>ocStmt\<close>.\<close>

definition ocConn_methods :: "string list" where
  "ocConn_methods =
     [''Ping'', ''Exec'', ''ExecContext'', ''Query'', ''QueryContext'', ''Prepare'', ''Close'',
      ''Begin'', ''PrepareContext'', ''BeginTx'']"

definition ocStmt_methods :: "string list" where
  "ocStmt_methods = [''Exec'', ''Close'', ''NumInput'', ''Query'', ''ExecContext'', ''QueryContext'']"

text \<open>The methods of the interfaces \<open>driver.Conn\<close> and \<open>driver.Stmt\<close>.\<close>

definition driver_Conn_methods :: "string list" where
  "driver_Conn_methods = [''Prepare'', ''Close'', ''Begin'']"

definition driver_Stmt_methods :: "string list" where
  "driver_Stmt_methods = [''Close'', ''NumInput'', ''Exec'', ''Query'']"

text \<open>
  The method set of a statement the wrapper hands back: a struct that embeds interfaces
  has the methods of those interfaces and no other.
\<close>

fun Stmt_methods :: "Stmt \<Rightarrow> string list" where
  "Stmt_methods (Stmt_ocStmt s) = ocStmt_methods"
| "Stmt_methods (Stmt_struct s) = driver_Stmt_methods"
| "Stmt_methods (Stmt_struct_Q s q) = driver_Stmt_methods @ [''QueryContext'']"
| "Stmt_methods (Stmt_struct_E s e) = driver_Stmt_methods @ [''ExecContext'']"
| "Stmt_methods (Stmt_struct_EQ s e q) = driver_Stmt_methods @ [''ExecContext'', ''QueryContext'']"

fun Conn_methods :: "Conn \<Rightarrow> string list" where
  "Conn_methods (Conn_ocConn c) = ocConn_methods"

text \<open>The method sets of the parent's objects, read off their records.\<close>

definition parent_stmt_methods :: "parent_stmt \<Rightarrow> string list" where
  "parent_stmt_methods p =
     driver_Stmt_methods
     @ (if stmt_ExecContext p \<noteq> None then [''ExecContext''] else [])
     @ (if stmt_QueryContext p \<noteq> None then [''QueryContext''] else [])"

definition parent_conn_methods :: "parent_conn \<Rightarrow> string list" where
  "parent_conn_methods p =
     driver_Conn_methods
     @ (if conn_Ping p \<noteq> None then [''Ping''] else [])
     @ (if conn_Exec p \<noteq> None then [''Exec''] else [])
     @ (if conn_ExecContext p \<noteq> None then [''ExecContext''] else [])
     @ (if conn_Query p \<noteq> None then [''Query''] else [])
     @ (if conn_QueryContext p \<noteq> None then [''QueryContext''] else [])
     @ (if conn_PrepareContext p \<noteq> None then [''PrepareContext''] else [])
     @ (if conn_BeginTx p \<noteq> None then [''BeginTx''] else [])"

section \<open>Observing a call\<close>

text \<open>The spans a call started: the \<open>StartSpan\<close> events between the state before and after.\<close>

fun is_StartSpan :: "Event \<Rightarrow> bool" where
  "is_StartSpan (EvStartSpan s p n) = True"
| "is_StartSpan e = False"

definition started :: "World \<Rightarrow> World \<Rightarrow> Event list" where
  "started w w' = filter is_StartSpan (drop (length (events w)) (events w'))"

section \<open>The options a wrapper holds\<close>

text \<open>
  The options a decorator reads are the \<open>options\<close> field of its struct. \<open>consistent\<close>
  says of such options that parameters are captured only where the query text is.
\<close>

definition consistent :: "TraceOptions \<Rightarrow> bool" where
  "consistent opts = (\<not> (QueryParams opts \<and> \<not> Query opts))"

fun Conn_options :: "Conn \<Rightarrow> TraceOptions list" where
  "Conn_options (Conn_ocConn c) = [c_options c]"

fun Stmt_options :: "Stmt \<Rightarrow> TraceOptions list" where
  "Stmt_options (Stmt_ocStmt s) = [s_options s]"
| "Stmt_options (Stmt_struct s) = [s_options s]"
| "Stmt_options (Stmt_struct_Q s q) = [s_options s, s_options q]"
| "Stmt_options (Stmt_struct_E s e) = [s_options s, s_options e]"
| "Stmt_options (Stmt_struct_EQ s e q) = [s_options s, s_options e, s_options q]"

fun Result_options :: "Result \<Rightarrow> TraceOptions list" where
  "Result_options (Result_parent p) = []"
| "Result_options (Result_oc r) = [r_options r]"

fun Rows_options :: "Rows \<Rightarrow> TraceOptions list" where
  "Rows_options (Rows_parent p) = []"
| "Rows_options (Rows_oc r) = [rw_options r]"

fun Tx_options :: "Tx \<Rightarrow> TraceOptions list" where
  "Tx_options (Tx_parent p) = []"
| "Tx_options (Tx_oc t) = [t_options t]"

text \<open>The options held by what a call returned: none when it returned an error.\<close>

definition held :: "('a \<Rightarrow> TraceOptions list) \<Rightarrow> error + 'a \<Rightarrow> TraceOptions list" where
  "held f r = (case r of Inl err \<Rightarrow> [] | Inr x \<Rightarrow> f x)"

text \<open>The same for a call that may panic: none when it did.\<close>

definition held_opt :: "('a \<Rightarrow> TraceOptions list) \<Rightarrow> (error + 'a) option \<Rightarrow> TraceOptions list" where
  "held_opt f r = (case r of None \<Rightarrow> [] | Some x \<Rightarrow> held f x)"

section \<open>The context a wrapper holds\<close>

text \<open>
  The methods of a result, of rows and of a transaction take no context: the spans they
  start are children of the span their wrapper's \<open>ctx\<close> field carries.
\<close>

fun Result_ctxs :: "Result \<Rightarrow> Context list" where
  "Result_ctxs (Result_parent p) = []"
| "Result_ctxs (Result_oc r) = [r_ctx r]"

fun Rows_ctxs :: "Rows \<Rightarrow> Context list" where
  "Rows_ctxs (Rows_parent p) = []"
| "Rows_ctxs (Rows_oc r) = [rw_ctx r]"

fun Tx_ctxs :: "Tx \<Rightarrow> Context list" where
  "Tx_ctxs (Tx_parent p) = []"
| "Tx_ctxs (Tx_oc t) = [t_ctx t]"

definition carries_span :: "Context \<Rightarrow> bool" where
  "carries_span c = (FromContext c \<noteq> None)"

definition carried :: "('a \<Rightarrow> Context list) \<Rightarrow> error + 'a \<Rightarrow> Context list" where
  "carried f r = (case r of Inl err \<Rightarrow> [] | Inr x \<Rightarrow> f x)"

definition carried_opt :: "('a \<Rightarrow> Context list) \<Rightarrow> (error + 'a) option \<Rightarrow> Context list" where
  "carried_opt f r = (case r of None \<Rightarrow> [] | Some x \<Rightarrow> carried f x)"

section \<open>Concrete drivers\<close>

text \<open>
  The stub driver of the repository's test file: its connection and its statement
  implement the base interfaces only, and nothing fails.
\<close>

definition stubResult :: parent_result where
  "stubResult = \<lparr>result_LastInsertId = Inr 0, result_RowsAffected = Inr 0\<rparr>"

definition stubRows :: parent_rows where
  "stubRows = \<lparr>rows_Columns = [], rows_Close = None, rows_Next = (\<lambda>dest. None)\<rparr>"

definition stubTx :: parent_tx where
  "stubTx = \<lparr>tx_Commit = None, tx_Rollback = None\<rparr>"

definition stubStmt :: parent_stmt where
  "stubStmt =
     \<lparr>stmt_Close = None, stmt_NumInput = 0,
      stmt_Exec = (\<lambda>args. Inr stubResult), stmt_Query = (\<lambda>args. Inr stubRows),
      stmt_ExecContext = None, stmt_QueryContext = None\<rparr>"

definition stubConnection :: parent_conn where
  "stubConnection =
     \<lparr>conn_Prepare = (\<lambda>query. Inr stubStmt), conn_Close = None, conn_Begin = Inr stubTx,
      conn_Ping = None, conn_Exec = None, conn_ExecContext = None, conn_Query = None,
      conn_QueryContext = None, conn_PrepareContext = None, conn_BeginTx = None\<rparr>"

definition stubDriver :: parent_driver where
  "stubDriver = \<lparr>driver_Open = (\<lambda>name. Inr stubConnection)\<rparr>"

text \<open>
  A driver that implements every optional interface. Its connection is closed: a ping,
  an exec, a query, a prepare and a begin fail with \<open>sql.ErrConnDone\<close>, whatever the
  context. Its statement and rows are those of a connection that was still open.
\<close>

definition doneRows :: parent_rows where
  "doneRows =
     \<lparr>rows_Columns = [''id''], rows_Close = Some sql_ErrConnDone, rows_Next = (\<lambda>dest. Some io_EOF)\<rparr>"

definition doneResult :: parent_result where
  "doneResult =
     \<lparr>result_LastInsertId = Inl sql_ErrConnDone, result_RowsAffected = Inl sql_ErrConnDone\<rparr>"

definition doneTx :: parent_tx where
  "doneTx = \<lparr>tx_Commit = Some sql_ErrTxDone, tx_Rollback = Some sql_ErrTxDone\<rparr>"

definition doneStmt :: parent_stmt where
  "doneStmt =
     \<lparr>stmt_Close = Some sql_ErrConnDone, stmt_NumInput = 1,
      stmt_Exec = (\<lambda>args. Inl sql_ErrConnDone), stmt_Query = (\<lambda>args. Inl sql_ErrConnDone),
      stmt_ExecContext = Some (\<lambda>ctx args. Inl sql_ErrConnDone),
      stmt_QueryContext = Some (\<lambda>ctx args. Inl sql_ErrConnDone)\<rparr>"

definition doneConnection :: parent_conn where
  "doneConnection =
     \<lparr>conn_Prepare = (\<lambda>query. Inl sql_ErrConnDone), conn_Close = Some sql_ErrConnDone,
      conn_Begin = Inl sql_ErrConnDone,
      conn_Ping = Some (\<lambda>ctx. Some sql_ErrConnDone),
      conn_Exec = Some (\<lambda>query args. Inl sql_ErrConnDone),
      conn_ExecContext = Some (\<lambda>ctx query args. Inl sql_ErrConnDone),
      conn_Query = Some (\<lambda>query args. Inl sql_ErrConnDone),
      conn_QueryContext = Some (\<lambda>ctx query args. Inl sql_ErrConnDone),
      conn_PrepareContext = Some (\<lambda>ctx query. Inl sql_ErrConnDone),
      conn_BeginTx = Some (\<lambda>ctx opts. Inl sql_ErrConnDone)\<rparr>"

definition doneDriver :: parent_driver where
  "doneDriver = \<lparr>driver_Open = (\<lambda>name. Inl sql_ErrConnDone)\<rparr>"

text \<open>A driver whose connection implements every optional interface and succeeds.\<close>

definition fullStmt :: parent_stmt where
  "fullStmt =
     \<lparr>stmt_Close = None, stmt_NumInput = 0,
      stmt_Exec = (\<lambda>args. Inr stubResult), stmt_Query = (\<lambda>args. Inr stubRows),
      stmt_ExecContext = Some (\<lambda>ctx args. Inr stubResult),
      stmt_QueryContext = Some (\<lambda>ctx args. Inr stubRows)\<rparr>"

definition fullConnection :: parent_conn where
  "fullConnection =
     \<lparr>conn_Prepare = (\<lambda>query. Inr fullStmt), conn_Close = None, conn_Begin = Inr stubTx,
      conn_Ping = Some (\<lambda>ctx. None),
      conn_Exec = Some (\<lambda>query args. Inr stubResult),
      conn_ExecContext = Some (\<lambda>ctx query args. Inr stubResult),
      conn_Query = Some (\<lambda>query args. Inr stubRows),
      conn_QueryContext = Some (\<lambda>ctx query args. Inr stubRows),
      conn_PrepareContext = Some (\<lambda>ctx query. Inr fullStmt),
      conn_BeginTx = Some (\<lambda>ctx opts. Inr stubTx)\<rparr>"

definition fullDriver :: parent_driver where
  "fullDriver = \<lparr>driver_Open = (\<lambda>name. Inr fullConnection)\<rparr>"

text \<open>A formatter to run the encoder with, and the state before any call.\<close>

definition stubFmt :: Fmt where
  "stubFmt = \<lparr>Sprintf_f = (\<lambda>v. ''0.000000''), Sprintf_v_dynamic = (\<lambda>v. ''value'')\<rparr>"

definition w0 :: World where
  "w0 = \<lparr>nextSpan = 0, events = []\<rparr>"

text \<open>Rows that are exhausted: \<open>Next\<close> answers \<open>io.EOF\<close>.\<close>

definition eofRows :: ocRows where
  "eofRows = \<lparr>rw_parent = doneRows, rw_ctx = WithSpan 7 Background, rw_options = TraceAll\<rparr>"

text \<open>Wrappers of these drivers, under three settings of the options.\<close>

definition noRootOptions :: TraceOptions where
  "noRootOptions = TraceAll\<lparr>AllowRoot := False\<rparr>"

definition rootOnlyOptions :: TraceOptions where
  "rootOnlyOptions = TraceOptions_zero\<lparr>AllowRoot := True\<rparr>"

definition noRootConn :: ocConn where
  "noRootConn = \<lparr>c_parent = fullConnection, c_options = noRootOptions\<rparr>"

definition noRootStmt :: ocStmt where
  "noRootStmt = \<lparr>s_parent = fullStmt, s_query = ''SELECT 1'', s_options = noRootOptions\<rparr>"

definition rootOnlyConn :: ocConn where
  "rootOnlyConn = \<lparr>c_parent = fullConnection, c_options = rootOnlyOptions\<rparr>"

definition rootOnlyStmt :: ocStmt where
  "rootOnlyStmt = \<lparr>s_parent = fullStmt, s_query = ''SELECT 1'', s_options = rootOnlyOptions\<rparr>"

definition stubConn :: ocConn where
  "stubConn = \<lparr>c_parent = stubConnection, c_options = TraceAll\<rparr>"

definition fullConn :: ocConn where
  "fullConn = \<lparr>c_parent = fullConnection, c_options = TraceAll\<rparr>"

definition doneConn :: ocConn where
  "doneConn = \<lparr>c_parent = doneConnection, c_options = TraceAll\<rparr>"

definition doneOcStmt :: ocStmt where
  "doneOcStmt = \<lparr>s_parent = doneStmt, s_query = ''SELECT 1'', s_options = TraceAll\<rparr>"

text \<open>A context of the application that carries no span.\<close>

definition appCtx :: Context where
  "appCtx = WithValue 1 Background"

definition txOpts :: TxOptions where
  "txOpts = \<lparr>Isolation = 0, ReadOnly = False\<rparr>"

section \<open>Characters of a string\<close>

text \<open>
  A Go string holds text as UTF-8: a character (code point) is one byte, or a leading
  byte followed by continuation bytes, which are the bytes from 128 to 191. The number
  of characters of well-formed text, as \<open>utf8.RuneCountInString\<close> of the Go standard
  library gives it, is the number of its bytes that are not continuation bytes.
\<close>

definition is_continuation :: "char \<Rightarrow> bool" where
  "is_continuation c = (128 \<le> (of_char c :: nat) \<and> (of_char c :: nat) < 192)"

definition RuneCount :: "string \<Rightarrow> nat" where
  "RuneCount s = length (filter (\<lambda>c. \<not> is_continuation c) s)"

text \<open>The two bytes of the letter e with an acute accent, and that letter \<open>n\<close> times.\<close>

definition e_acute :: string where
  "e_acute = [CHR 0xC3, CHR 0xA9]"

definition accented :: "nat \<Rightarrow> string" where
  "accented n = concat (replicate n e_acute)"

section \<open>Facts about the tracing backend\<close>

lemmas tracer_defs =
  emit_def StartSpan_def AddAttributes_def SetStatus_def End_def call_def setSpanStatus_def
  Let_def error_of_def

section \<open>C5: the status mapper\<close>

lemma statusOf_sentinels:
  "statusOf None = \<lparr>Code = StatusCodeOK, Message = []\<rparr>"
  "Code (statusOf (Some context_Canceled)) = StatusCodeCancelled"
  "Code (statusOf (Some context_DeadlineExceeded)) = StatusCodeDeadlineExceeded"
  "Code (statusOf (Some sql_ErrNoRows)) = StatusCodeNotFound"
  "Code (statusOf (Some sql_ErrTxDone)) = StatusCodeFailedPrecondition"
  "Code (statusOf (Some sql_ErrConnDone)) = StatusCodeFailedPrecondition"
  by (simp_all add: statusOf_def)

lemma statusOf_other:
  "e \<notin> {context_Canceled, context_DeadlineExceeded, sql_ErrNoRows, sql_ErrTxDone, sql_ErrConnDone}
   \<Longrightarrow> statusOf (Some e) = \<lparr>Code = StatusCodeUnknown, Message = Error e\<rparr>"
  by (simp add: statusOf_def)

lemma Rows_Next_EOF:
  "RowsNext (rw_options r) \<Longrightarrow> rows_Next (rw_parent r) dest = Some io_EOF \<Longrightarrow>
   ocRows_Next r dest w =
     (Some io_EOF,
      w\<lparr>nextSpan := Suc (nextSpan w),
        events := events w @
          [EvStartSpan (nextSpan w) (FromContext (rw_ctx r)) ''sql:rows_next'',
           EvCall ''Rows.Next'' None,
           EvSetStatus (nextSpan w) \<lparr>Code = StatusCodeOK, Message = []\<rparr>,
           EvEnd (nextSpan w)]\<rparr>)"
  by (simp add: ocRows_Next_def tracer_defs statusOf_def)

text \<open>
  C5. The status mapper is total, with the precedence of the switch: nil gives OK; the
  cancellation error Cancelled; the deadline error DeadlineExceeded; \<open>sql.ErrNoRows\<close>
  NotFound; \<open>sql.ErrTxDone\<close> and \<open>sql.ErrConnDone\<close> FailedPrecondition; every other
  error Unknown, with the error's message; \<open>setSpanStatus\<close> records exactly that status;
  and \<open>Rows.Next\<close>, when it is traced and the parent answers \<open>io.EOF\<close>, records OK on
  its span (and still returns \<open>io.EOF\<close>).
\<close>

theorem status_mapper_precedence:
  "statusOf None = \<lparr>Code = StatusCodeOK, Message = []\<rparr>
   \<and> Code (statusOf (Some context_Canceled)) = StatusCodeCancelled
   \<and> Code (statusOf (Some context_DeadlineExceeded)) = StatusCodeDeadlineExceeded
   \<and> Code (statusOf (Some sql_ErrNoRows)) = StatusCodeNotFound
   \<and> Code (statusOf (Some sql_ErrTxDone)) = StatusCodeFailedPrecondition
   \<and> Code (statusOf (Some sql_ErrConnDone)) = StatusCodeFailedPrecondition
   \<and> (\<forall>e. e \<notin> {context_Canceled, context_DeadlineExceeded, sql_ErrNoRows, sql_ErrTxDone,
                sql_ErrConnDone}
          \<longrightarrow> statusOf (Some e) = \<lparr>Code = StatusCodeUnknown, Message = Error e\<rparr>)
   \<and> (\<forall>span err w. events (setSpanStatus span err w) = events w @ [EvSetStatus span (statusOf err)])
   \<and> (\<forall>r dest w.
          RowsNext (rw_options r) \<and> rows_Next (rw_parent r) dest = Some io_EOF
          \<longrightarrow> ocRows_Next r dest w =
                (Some io_EOF,
                 w\<lparr>nextSpan := Suc (nextSpan w),
                   events := events w @
                     [EvStartSpan (nextSpan w) (FromContext (rw_ctx r)) ''sql:rows_next'',
                      EvCall ''Rows.Next'' None,
                      EvSetStatus (nextSpan w) \<lparr>Code = StatusCodeOK, Message = []\<rparr>,
                      EvEnd (nextSpan w)]\<rparr>))"
proof -
  have other: "\<forall>e. e \<notin> {context_Canceled, context_DeadlineExceeded, sql_ErrNoRows, sql_ErrTxDone,
                sql_ErrConnDone}
          \<longrightarrow> statusOf (Some e) = \<lparr>Code = StatusCodeUnknown, Message = Error e\<rparr>"
    using statusOf_other by blast
  have rec: "\<forall>span err w. events (setSpanStatus span err w) = events w @ [EvSetStatus span (statusOf err)]"
    by (simp add: tracer_defs)
  have eof: "\<forall>r dest w.
          RowsNext (rw_options r) \<and> rows_Next (rw_parent r) dest = Some io_EOF
          \<longrightarrow> ocRows_Next r dest w =
                (Some io_EOF,
                 w\<lparr>nextSpan := Suc (nextSpan w),
                   events := events w @
                     [EvStartSpan (nextSpan w) (FromContext (rw_ctx r)) ''sql:rows_next'',
                      EvCall ''Rows.Next'' None,
                      EvSetStatus (nextSpan w) \<lparr>Code = StatusCodeOK, Message = []\<rparr>,
                      EvEnd (nextSpan w)]\<rparr>)"
    using Rows_Next_EOF by blast
  from statusOf_sentinels other rec eof show ?thesis by blast
qed

theorem status_mapper_precedence_witness:
  "statusOf (Some (errors_New ''boom'')) = \<lparr>Code = StatusCodeUnknown, Message = ''boom''\<rparr>
   \<and> statusOf (Some io_EOF) = \<lparr>Code = StatusCodeUnknown, Message = ''EOF''\<rparr>
   \<and> RowsNext (rw_options eofRows)
   \<and> rows_Next (rw_parent eofRows) [] = Some io_EOF
   \<and> ocRows_Next eofRows [] w0 =
       (Some io_EOF,
        \<lparr>nextSpan = 1,
         events =
           [EvStartSpan 0 (Some 7) ''sql:rows_next'',
            EvCall ''Rows.Next'' None,
            EvSetStatus 0 \<lparr>Code = StatusCodeOK, Message = []\<rparr>,
            EvEnd 0]\<rparr>)"
proof -
  have a: "errors_New ''boom'' \<notin> {context_Canceled, context_DeadlineExceeded, sql_ErrNoRows,
             sql_ErrTxDone, sql_ErrConnDone}"
    by simp
  have b: "io_EOF \<notin> {context_Canceled, context_DeadlineExceeded, sql_ErrNoRows,
             sql_ErrTxDone, sql_ErrConnDone}"
    by simp
  have c: "RowsNext (rw_options eofRows) \<and> rows_Next (rw_parent eofRows) [] = Some io_EOF"
    by (simp add: eofRows_def doneRows_def TraceAll_def)
  from status_mapper_precedence a b c
  have "statusOf (Some (errors_New ''boom'')) = \<lparr>Code = StatusCodeUnknown, Message = Error (errors_New ''boom'')\<rparr>"
    and "statusOf (Some io_EOF) = \<lparr>Code = StatusCodeUnknown, Message = Error io_EOF\<rparr>"
    and "ocRows_Next eofRows [] w0 =
                (Some io_EOF,
                 w0\<lparr>nextSpan := Suc (nextSpan w0),
                   events := events w0 @
                     [EvStartSpan (nextSpan w0) (FromContext (rw_ctx eofRows)) ''sql:rows_next'',
                      EvCall ''Rows.Next'' None,
                      EvSetStatus (nextSpan w0) \<lparr>Code = StatusCodeOK, Message = []\<rparr>,
                      EvEnd (nextSpan w0)]\<rparr>)"
    by blast+
  with c show ?thesis by (simp add: w0_def eofRows_def)
qed

section \<open>Calls that are forwarded without a span\<close>

lemma Ping_untraced:
  "\<not> (Ping (c_options c) \<and> (AllowRoot (c_options c) \<or> FromContext ctx \<noteq> None)) \<Longrightarrow>
   ocConn_Ping c ctx w =
     (case conn_Ping (c_parent c) of
        Some ping \<Rightarrow> (ping ctx, w\<lparr>events := events w @ [EvCall ''Pinger.Ping'' (Some ctx)]\<rparr>)
      | None \<Rightarrow> (None, w))"
  by (auto simp add: ocConn_Ping_def tracer_defs split: option.splits)

lemma Exec_untraced:
  "\<not> AllowRoot (c_options c) \<Longrightarrow>
   ocConn_Exec F c query args w =
     (case conn_Exec (c_parent c) of
        Some exec \<Rightarrow>
          (map_sum id Result_parent (exec query args),
           w\<lparr>events := events w @ [EvCall ''Execer.Exec'' None]\<rparr>)
      | None \<Rightarrow> (Inl driver_ErrSkip, w))"
  by (simp add: ocConn_Exec_def tracer_defs split: option.splits)

lemma ExecContext_untraced:
  "\<not> AllowRoot (c_options c) \<Longrightarrow> FromContext ctx = None \<Longrightarrow>
   ocConn_ExecContext F c ctx query args w =
     (case conn_ExecContext (c_parent c) of
        Some execCtx \<Rightarrow>
          (map_sum id Result_parent (execCtx ctx query args),
           w\<lparr>events := events w @ [EvCall ''ExecerContext.ExecContext'' (Some ctx)]\<rparr>)
      | None \<Rightarrow> (Inl driver_ErrSkip, w))"
  by (simp add: ocConn_ExecContext_def tracer_defs split: option.splits)

lemma Query_untraced:
  "\<not> AllowRoot (c_options c) \<Longrightarrow>
   ocConn_Query F c query args w =
     (case conn_Query (c_parent c) of
        Some queryer \<Rightarrow>
          (map_sum id Rows_parent (queryer query args),
           w\<lparr>events := events w @ [EvCall ''Queryer.Query'' None]\<rparr>)
      | None \<Rightarrow> (Inl driver_ErrSkip, w))"
  by (simp add: ocConn_Query_def tracer_defs split: option.splits)

lemma QueryContext_untraced:
  "\<not> AllowRoot (c_options c) \<Longrightarrow> FromContext ctx = None \<Longrightarrow>
   ocConn_QueryContext F c ctx query args w =
     (case conn_QueryContext (c_parent c) of
        Some queryerCtx \<Rightarrow>
          (map_sum id Rows_parent (queryerCtx ctx query args),
           w\<lparr>events := events w @ [EvCall ''QueryerContext.QueryContext'' (Some ctx)]\<rparr>)
      | None \<Rightarrow> (Inl driver_ErrSkip, w))"
  by (simp add: ocConn_QueryContext_def tracer_defs split: option.splits)

lemma Prepare_untraced:
  "\<not> AllowRoot (c_options c) \<Longrightarrow>
   ocConn_Prepare c query w =
     (map_sum id (\<lambda>stmt. wrapStmt stmt query (c_options c)) (conn_Prepare (c_parent c) query),
      w\<lparr>events := events w @ [EvCall ''Conn.Prepare'' None]\<rparr>)"
  by (simp add: ocConn_Prepare_def tracer_defs split: sum.splits)

lemma PrepareContext_untraced:
  "\<not> AllowRoot (c_options c) \<Longrightarrow> FromContext ctx = None \<Longrightarrow>
   ocConn_PrepareContext c ctx query w =
     (case conn_PrepareContext (c_parent c) of
        Some prepCtx \<Rightarrow>
          (map_sum id (\<lambda>stmt. wrapStmt stmt query (c_options c)) (prepCtx ctx query),
           w\<lparr>events := events w @ [EvCall ''ConnPrepareContext.PrepareContext'' (Some ctx)]\<rparr>)
      | None \<Rightarrow>
          (map_sum id (\<lambda>stmt. wrapStmt stmt query (c_options c)) (conn_Prepare (c_parent c) query),
           w\<lparr>events := events w @ [EvCall ''Conn.Prepare'' None]\<rparr>))"
  by (simp add: ocConn_PrepareContext_def tracer_defs split: sum.splits option.splits)

lemma BeginTx_untraced:
  "\<not> AllowRoot (c_options c) \<Longrightarrow> FromContext ctx = None \<Longrightarrow>
   ocConn_BeginTx c ctx opts w =
     (case conn_BeginTx (c_parent c) of
        Some connBeginTx \<Rightarrow>
          (map_sum id Tx_parent (connBeginTx ctx opts),
           w\<lparr>events := events w @ [EvCall ''ConnBeginTx.BeginTx'' (Some ctx)]\<rparr>)
      | None \<Rightarrow>
          (map_sum id Tx_parent (conn_Begin (c_parent c)),
           w\<lparr>events := events w @ [EvCall ''Conn.Begin'' None]\<rparr>))"
  by (simp add: ocConn_BeginTx_def tracer_defs split: sum.splits option.splits)

lemma Begin_untraced:
  "\<not> AllowRoot (c_options c) \<Longrightarrow>
   ocConn_Begin c w =
     (case conn_BeginTx (c_parent c) of
        Some connBeginTx \<Rightarrow>
          (map_sum id Tx_parent (connBeginTx TODO \<lparr>Isolation = 0, ReadOnly = False\<rparr>),
           w\<lparr>events := events w @ [EvCall ''ConnBeginTx.BeginTx'' (Some TODO)]\<rparr>)
      | None \<Rightarrow>
          (map_sum id Tx_parent (conn_Begin (c_parent c)),
           w\<lparr>events := events w @ [EvCall ''Conn.Begin'' None]\<rparr>))"
  by (simp add: ocConn_Begin_def BeginTx_untraced)

lemma Stmt_Exec_untraced:
  "\<not> AllowRoot (s_options s) \<Longrightarrow>
   ocStmt_Exec F s args w =
     (map_sum id Result_parent (stmt_Exec (s_parent s) args),
      w\<lparr>events := events w @ [EvCall ''Stmt.Exec'' None]\<rparr>)"
  by (simp add: ocStmt_Exec_def tracer_defs)

lemma Stmt_Query_untraced:
  "\<not> AllowRoot (s_options s) \<Longrightarrow>
   ocStmt_Query F s args w =
     (map_sum id Rows_parent (stmt_Query (s_parent s) args),
      w\<lparr>events := events w @ [EvCall ''Stmt.Query'' None]\<rparr>)"
  by (simp add: ocStmt_Query_def tracer_defs)

lemma Stmt_ExecContext_untraced:
  "\<not> AllowRoot (s_options s) \<Longrightarrow> FromContext ctx = None \<Longrightarrow>
   stmt_ExecContext (s_parent s) = Some execContext \<Longrightarrow>
   ocStmt_ExecContext F s ctx args w =
     (Some (map_sum id Result_parent (execContext ctx args)),
      w\<lparr>events := events w @ [EvCall ''StmtExecContext.ExecContext'' (Some ctx)]\<rparr>)"
  by (simp add: ocStmt_ExecContext_def tracer_defs)

lemma Stmt_QueryContext_untraced:
  "\<not> AllowRoot (s_options s) \<Longrightarrow> FromContext ctx = None \<Longrightarrow>
   stmt_QueryContext (s_parent s) = Some queryContext \<Longrightarrow>
   ocStmt_QueryContext F s ctx args w =
     (Some (map_sum id Rows_parent (queryContext ctx args)),
      w\<lparr>events := events w @ [EvCall ''StmtQueryContext.QueryContext'' (Some ctx)]\<rparr>)"
  by (simp add: ocStmt_QueryContext_def tracer_defs)

section \<open>The spans a call starts\<close>

lemma Ping_started:
  "started w (snd (ocConn_Ping c ctx w)) =
     (if Ping (c_options c) \<and> (AllowRoot (c_options c) \<or> FromContext ctx \<noteq> None)
      then [EvStartSpan (nextSpan w) (FromContext ctx) ''sql:ping''] else [])"
  by (cases "conn_Ping (c_parent c)") (simp_all add: ocConn_Ping_def started_def tracer_defs split: option.splits)

lemma Exec_started:
  "conn_Exec (c_parent c) \<noteq> None \<Longrightarrow>
   started w (snd (ocConn_Exec F c query args w)) =
     (if AllowRoot (c_options c) then [EvStartSpan (nextSpan w) None ''sql:exec''] else [])"
  by (cases "conn_Exec (c_parent c)") (simp_all add: ocConn_Exec_def started_def tracer_defs)

lemma ExecContext_started:
  "conn_ExecContext (c_parent c) \<noteq> None \<Longrightarrow>
   started w (snd (ocConn_ExecContext F c ctx query args w)) =
     (if AllowRoot (c_options c) \<or> FromContext ctx \<noteq> None
      then [EvStartSpan (nextSpan w) (FromContext ctx) ''sql:exec''] else [])"
  by (cases "conn_ExecContext (c_parent c)") (simp_all add: ocConn_ExecContext_def started_def tracer_defs)

lemma Query_started:
  "conn_Query (c_parent c) \<noteq> None \<Longrightarrow>
   started w (snd (ocConn_Query F c query args w)) =
     (if AllowRoot (c_options c) then [EvStartSpan (nextSpan w) None ''sql:query''] else [])"
  by (cases "conn_Query (c_parent c)") (simp_all add: ocConn_Query_def started_def tracer_defs)

lemma QueryContext_started:
  "conn_QueryContext (c_parent c) \<noteq> None \<Longrightarrow>
   started w (snd (ocConn_QueryContext F c ctx query args w)) =
     (if AllowRoot (c_options c) \<or> FromContext ctx \<noteq> None
      then [EvStartSpan (nextSpan w) (FromContext ctx) ''sql:query''] else [])"
  by (cases "conn_QueryContext (c_parent c)") (simp_all add: ocConn_QueryContext_def started_def tracer_defs)

lemma Prepare_started:
  "started w (snd (ocConn_Prepare c query w)) =
     (if AllowRoot (c_options c) then [EvStartSpan (nextSpan w) None ''sql:prepare''] else [])"
  by (simp add: ocConn_Prepare_def started_def tracer_defs)

lemma PrepareContext_started:
  "started w (snd (ocConn_PrepareContext c ctx query w)) =
     (if AllowRoot (c_options c) \<or> FromContext ctx \<noteq> None
      then [EvStartSpan (nextSpan w) (FromContext ctx) ''sql:prepare''] else [])"
  by (cases "conn_PrepareContext (c_parent c)") (simp_all add: ocConn_PrepareContext_def started_def tracer_defs)

lemma BeginTx_started:
  "started w (snd (ocConn_BeginTx c ctx opts w)) =
     (if AllowRoot (c_options c) \<or> FromContext ctx \<noteq> None
      then [EvStartSpan (nextSpan w) (FromContext ctx) ''sql:begin_transaction''] else [])"
  by (cases "conn_BeginTx (c_parent c)") (simp_all add: ocConn_BeginTx_def started_def tracer_defs)

lemma Stmt_Exec_started:
  "started w (snd (ocStmt_Exec F s vals w)) =
     (if AllowRoot (s_options s) then [EvStartSpan (nextSpan w) None ''sql:exec''] else [])"
  by (simp add: ocStmt_Exec_def started_def tracer_defs)

lemma Stmt_Query_started:
  "started w (snd (ocStmt_Query F s vals w)) =
     (if AllowRoot (s_options s) then [EvStartSpan (nextSpan w) None ''sql:query''] else [])"
  by (simp add: ocStmt_Query_def started_def tracer_defs)

lemma Stmt_ExecContext_started:
  "started w (snd (ocStmt_ExecContext F s ctx args w)) =
     (if AllowRoot (s_options s) \<or> FromContext ctx \<noteq> None
      then [EvStartSpan (nextSpan w) (FromContext ctx) ''sql:exec''] else [])"
  by (cases "stmt_ExecContext (s_parent s)")
     (simp_all add: ocStmt_ExecContext_def started_def tracer_defs)

lemma Stmt_QueryContext_started:
  "started w (snd (ocStmt_QueryContext F s ctx args w)) =
     (if AllowRoot (s_options s) \<or> FromContext ctx \<noteq> None
      then [EvStartSpan (nextSpan w) (FromContext ctx) ''sql:query''] else [])"
  by (cases "stmt_QueryContext (s_parent s)")
     (simp_all add: ocStmt_QueryContext_def started_def tracer_defs)

section \<open>The error a call returns\<close>

lemma Open_error:
  "error_of (fst (ocDriver_Open d name w)) = error_of (driver_Open (d_parent d) name)"
  by (simp add: ocDriver_Open_def tracer_defs split: sum.splits)

lemma Ping_error:
  "conn_Ping (c_parent c) = Some ping \<Longrightarrow>
   fst (ocConn_Ping c ctx w) =
     ping (if Ping (c_options c) \<and> (AllowRoot (c_options c) \<or> FromContext ctx \<noteq> None)
           then WithSpan (nextSpan w) ctx else ctx)"
  by (auto simp add: ocConn_Ping_def tracer_defs)

lemma Exec_error:
  "conn_Exec (c_parent c) = Some exec \<Longrightarrow>
   error_of (fst (ocConn_Exec F c query args w)) = error_of (exec query args)"
  by (simp add: ocConn_Exec_def tracer_defs split: sum.splits)

lemma ExecContext_error:
  "conn_ExecContext (c_parent c) = Some execCtx \<Longrightarrow>
   error_of (fst (ocConn_ExecContext F c ctx query args w)) =
     error_of (execCtx (if AllowRoot (c_options c) \<and> FromContext ctx = None
                        then WithSpan (nextSpan w) ctx else ctx) query args)"
  by (simp add: ocConn_ExecContext_def tracer_defs split: sum.splits)

lemma Query_error:
  "conn_Query (c_parent c) = Some queryer \<Longrightarrow>
   error_of (fst (ocConn_Query F c query args w)) = error_of (queryer query args)"
  by (simp add: ocConn_Query_def tracer_defs split: sum.splits)

lemma QueryContext_error:
  "conn_QueryContext (c_parent c) = Some queryerCtx \<Longrightarrow>
   error_of (fst (ocConn_QueryContext F c ctx query args w)) =
     error_of (queryerCtx (if AllowRoot (c_options c) \<and> FromContext ctx = None
                           then WithSpan (nextSpan w) ctx else ctx) query args)"
  by (simp add: ocConn_QueryContext_def tracer_defs split: sum.splits)

lemma Prepare_error:
  "error_of (fst (ocConn_Prepare c query w)) = error_of (conn_Prepare (c_parent c) query)"
  by (simp add: ocConn_Prepare_def tracer_defs split: sum.splits)

lemma PrepareContext_error:
  "error_of (fst (ocConn_PrepareContext c ctx query w)) =
     (case conn_PrepareContext (c_parent c) of
        Some prepCtx \<Rightarrow>
          error_of (prepCtx (if AllowRoot (c_options c) \<or> FromContext ctx \<noteq> None
                             then WithSpan (nextSpan w) ctx else ctx) query)
      | None \<Rightarrow> error_of (conn_Prepare (c_parent c) query))"
  by (cases "conn_PrepareContext (c_parent c)")
     (simp_all add: ocConn_PrepareContext_def tracer_defs split: sum.splits)

lemma Close_error: "fst (ocConn_Close c w) = conn_Close (c_parent c)"
  by (simp add: ocConn_Close_def)

lemma BeginTx_error:
  "error_of (fst (ocConn_BeginTx c ctx opts w)) =
     (case conn_BeginTx (c_parent c) of
        Some connBeginTx \<Rightarrow>
          error_of (connBeginTx (if AllowRoot (c_options c) \<and> ctx = TODO then Background else ctx) opts)
      | None \<Rightarrow> error_of (conn_Begin (c_parent c)))"
  by (cases "conn_BeginTx (c_parent c)"; cases ctx)
     (simp_all add: ocConn_BeginTx_def tracer_defs split: sum.splits)

lemma LastInsertId_result: "fst (ocResult_LastInsertId r w) = result_LastInsertId (r_parent r)"
  by (simp add: ocResult_LastInsertId_def tracer_defs split: prod.splits)

lemma RowsAffected_result: "fst (ocResult_RowsAffected r w) = result_RowsAffected (r_parent r)"
  by (simp add: ocResult_RowsAffected_def tracer_defs split: prod.splits)

lemma Stmt_Exec_error:
  "error_of (fst (ocStmt_Exec F s args w)) = error_of (stmt_Exec (s_parent s) args)"
  by (simp add: ocStmt_Exec_def tracer_defs split: sum.splits)

lemma Stmt_Query_error:
  "error_of (fst (ocStmt_Query F s args w)) = error_of (stmt_Query (s_parent s) args)"
  by (simp add: ocStmt_Query_def tracer_defs split: sum.splits)

lemma Stmt_Close_error: "fst (ocStmt_Close s w) = stmt_Close (s_parent s)"
  by (simp add: ocStmt_Close_def)

lemma Stmt_ExecContext_error:
  "stmt_ExecContext (s_parent s) = Some execContext \<Longrightarrow>
   map_option error_of (fst (ocStmt_ExecContext F s ctx args w)) =
     Some (error_of (execContext (if AllowRoot (s_options s) \<and> FromContext ctx = None
                                  then WithSpan (nextSpan w) ctx else ctx) args))"
  by (simp add: ocStmt_ExecContext_def tracer_defs split: sum.splits)

lemma Stmt_QueryContext_error:
  "stmt_QueryContext (s_parent s) = Some queryContext \<Longrightarrow>
   map_option error_of (fst (ocStmt_QueryContext F s ctx args w)) =
     Some (error_of (queryContext (if AllowRoot (s_options s) \<and> FromContext ctx = None
                                   then WithSpan (nextSpan w) ctx else ctx) args))"
  by (simp add: ocStmt_QueryContext_def tracer_defs split: sum.splits)

lemma Rows_Close_error: "fst (ocRows_Close r w) = rows_Close (rw_parent r)"
  by (simp add: ocRows_Close_def tracer_defs split: prod.splits)

lemma Rows_Next_error: "fst (ocRows_Next r dest w) = rows_Next (rw_parent r) dest"
  by (simp add: ocRows_Next_def tracer_defs split: prod.splits)

lemma Commit_error: "fst (ocTx_Commit t w) = tx_Commit (t_parent t)"
  by (simp add: ocTx_Commit_def tracer_defs)

lemma Rollback_error: "fst (ocTx_Rollback t w) = tx_Rollback (t_parent t)"
  by (simp add: ocTx_Rollback_def tracer_defs)

section \<open>C3: no root span without AllowRoot\<close>

text \<open>
  C3. With \<open>AllowRoot\<close> false and no span in the inbound context, every intercepted
  call of the connection and statement tiers starts no span and is forwarded to the
  parent unchanged, whatever the other options are: the only event is the call of the
  parent's method, with the same context and arguments, and the result is the parent's
  own (a statement the parent prepared is handed back through \<open>wrapStmt\<close>). The calls
  without a context (\<open>Exec\<close>, \<open>Query\<close>, \<open>Prepare\<close>, \<open>Begin\<close>) count as calls without
  a parent span. Where the parent does not implement \<open>ExecerContext\<close> and the like, the wrapper
  answers \<open>driver.ErrSkip\<close> and calls nothing.
\<close>

theorem no_root_no_parent_span:
  assumes "\<not> AllowRoot (c_options c)" and "\<not> AllowRoot (s_options s)"
    and "FromContext ctx = None"
  shows
   "ocConn_Ping c ctx w =
      (case conn_Ping (c_parent c) of
         Some ping \<Rightarrow> (ping ctx, w\<lparr>events := events w @ [EvCall ''Pinger.Ping'' (Some ctx)]\<rparr>)
       | None \<Rightarrow> (None, w))
    \<and> ocConn_Exec F c query vals w =
      (case conn_Exec (c_parent c) of
         Some exec \<Rightarrow>
           (map_sum id Result_parent (exec query vals),
            w\<lparr>events := events w @ [EvCall ''Execer.Exec'' None]\<rparr>)
       | None \<Rightarrow> (Inl driver_ErrSkip, w))
    \<and> ocConn_ExecContext F c ctx query args w =
      (case conn_ExecContext (c_parent c) of
         Some execCtx \<Rightarrow>
           (map_sum id Result_parent (execCtx ctx query args),
            w\<lparr>events := events w @ [EvCall ''ExecerContext.ExecContext'' (Some ctx)]\<rparr>)
       | None \<Rightarrow> (Inl driver_ErrSkip, w))
    \<and> ocConn_Query F c query vals w =
      (case conn_Query (c_parent c) of
         Some queryer \<Rightarrow>
           (map_sum id Rows_parent (queryer query vals),
            w\<lparr>events := events w @ [EvCall ''Queryer.Query'' None]\<rparr>)
       | None \<Rightarrow> (Inl driver_ErrSkip, w))
    \<and> ocConn_QueryContext F c ctx query args w =
      (case conn_QueryContext (c_parent c) of
         Some queryerCtx \<Rightarrow>
           (map_sum id Rows_parent (queryerCtx ctx query args),
            w\<lparr>events := events w @ [EvCall ''QueryerContext.QueryContext'' (Some ctx)]\<rparr>)
       | None \<Rightarrow> (Inl driver_ErrSkip, w))
    \<and> ocConn_Prepare c query w =
      (map_sum id (\<lambda>stmt. wrapStmt stmt query (c_options c)) (conn_Prepare (c_parent c) query),
       w\<lparr>events := events w @ [EvCall ''Conn.Prepare'' None]\<rparr>)
    \<and> ocConn_PrepareContext c ctx query w =
      (case conn_PrepareContext (c_parent c) of
         Some prepCtx \<Rightarrow>
           (map_sum id (\<lambda>stmt. wrapStmt stmt query (c_options c)) (prepCtx ctx query),
            w\<lparr>events := events w @ [EvCall ''ConnPrepareContext.PrepareContext'' (Some ctx)]\<rparr>)
       | None \<Rightarrow>
           (map_sum id (\<lambda>stmt. wrapStmt stmt query (c_options c)) (conn_Prepare (c_parent c) query),
            w\<lparr>events := events w @ [EvCall ''Conn.Prepare'' None]\<rparr>))
    \<and> ocConn_BeginTx c ctx opts w =
      (case conn_BeginTx (c_parent c) of
         Some connBeginTx \<Rightarrow>
           (map_sum id Tx_parent (connBeginTx ctx opts),
            w\<lparr>events := events w @ [EvCall ''ConnBeginTx.BeginTx'' (Some ctx)]\<rparr>)
       | None \<Rightarrow>
           (map_sum id Tx_parent (conn_Begin (c_parent c)),
            w\<lparr>events := events w @ [EvCall ''Conn.Begin'' None]\<rparr>))
    \<and> ocConn_Begin c w =
      (case conn_BeginTx (c_parent c) of
         Some connBeginTx \<Rightarrow>
           (map_sum id Tx_parent (connBeginTx TODO \<lparr>Isolation = 0, ReadOnly = False\<rparr>),
            w\<lparr>events := events w @ [EvCall ''ConnBeginTx.BeginTx'' (Some TODO)]\<rparr>)
       | None \<Rightarrow>
           (map_sum id Tx_parent (conn_Begin (c_parent c)),
            w\<lparr>events := events w @ [EvCall ''Conn.Begin'' None]\<rparr>))
    \<and> ocStmt_Exec F s vals w =
      (map_sum id Result_parent (stmt_Exec (s_parent s) vals),
       w\<lparr>events := events w @ [EvCall ''Stmt.Exec'' None]\<rparr>)
    \<and> ocStmt_Query F s vals w =
      (map_sum id Rows_parent (stmt_Query (s_parent s) vals),
       w\<lparr>events := events w @ [EvCall ''Stmt.Query'' None]\<rparr>)
    \<and> (\<forall>execContext. stmt_ExecContext (s_parent s) = Some execContext \<longrightarrow>
         ocStmt_ExecContext F s ctx args w =
           (Some (map_sum id Result_parent (execContext ctx args)),
            w\<lparr>events := events w @ [EvCall ''StmtExecContext.ExecContext'' (Some ctx)]\<rparr>))
    \<and> (\<forall>queryContext. stmt_QueryContext (s_parent s) = Some queryContext \<longrightarrow>
         ocStmt_QueryContext F s ctx args w =
           (Some (map_sum id Rows_parent (queryContext ctx args)),
            w\<lparr>events := events w @ [EvCall ''StmtQueryContext.QueryContext'' (Some ctx)]\<rparr>))"
  using assms
  by (intro conjI allI impI)
     (simp_all only: Ping_untraced Exec_untraced ExecContext_untraced Query_untraced
        QueryContext_untraced Prepare_untraced PrepareContext_untraced BeginTx_untraced
        Begin_untraced Stmt_Exec_untraced Stmt_Query_untraced Stmt_ExecContext_untraced
        Stmt_QueryContext_untraced simp_thms)

theorem no_root_no_parent_span_witness:
  "\<not> AllowRoot (c_options noRootConn) \<and> \<not> AllowRoot (s_options noRootStmt)
   \<and> FromContext appCtx = None
   \<and> Ping (c_options noRootConn) \<and> Query (c_options noRootConn)
   \<and> ocConn_Ping noRootConn appCtx w0 =
       (None, \<lparr>nextSpan = 0, events = [EvCall ''Pinger.Ping'' (Some appCtx)]\<rparr>)
   \<and> ocConn_ExecContext stubFmt noRootConn appCtx ''SELECT 1'' [] w0 =
       (Inr (Result_parent stubResult),
        \<lparr>nextSpan = 0, events = [EvCall ''ExecerContext.ExecContext'' (Some appCtx)]\<rparr>)
   \<and> ocConn_BeginTx noRootConn appCtx txOpts w0 =
       (Inr (Tx_parent stubTx),
        \<lparr>nextSpan = 0, events = [EvCall ''ConnBeginTx.BeginTx'' (Some appCtx)]\<rparr>)
   \<and> ocStmt_QueryContext stubFmt noRootStmt appCtx [] w0 =
       (Some (Inr (Rows_parent stubRows)),
        \<lparr>nextSpan = 0, events = [EvCall ''StmtQueryContext.QueryContext'' (Some appCtx)]\<rparr>)"
proof -
  have h1: "\<not> AllowRoot (c_options noRootConn)"
    by (simp add: noRootConn_def noRootOptions_def)
  have h2: "\<not> AllowRoot (s_options noRootStmt)"
    by (simp add: noRootStmt_def noRootOptions_def)
  have h3: "FromContext appCtx = None"
    by (simp add: appCtx_def)
  have h4: "Ping (c_options noRootConn) \<and> Query (c_options noRootConn)"
    by (simp add: noRootConn_def noRootOptions_def TraceAll_def)
  note t = no_root_no_parent_span [OF h1 h2 h3, where F = stubFmt and query = "''SELECT 1''"
      and args = "[]" and w = w0 and opts = txOpts]
  have p: "ocConn_Ping noRootConn appCtx w0 =
       (None, \<lparr>nextSpan = 0, events = [EvCall ''Pinger.Ping'' (Some appCtx)]\<rparr>)"
    using t by (simp add: noRootConn_def fullConnection_def w0_def)
  have e: "ocConn_ExecContext stubFmt noRootConn appCtx ''SELECT 1'' [] w0 =
       (Inr (Result_parent stubResult),
        \<lparr>nextSpan = 0, events = [EvCall ''ExecerContext.ExecContext'' (Some appCtx)]\<rparr>)"
    using t by (simp add: noRootConn_def fullConnection_def w0_def)
  have b: "ocConn_BeginTx noRootConn appCtx txOpts w0 =
       (Inr (Tx_parent stubTx),
        \<lparr>nextSpan = 0, events = [EvCall ''ConnBeginTx.BeginTx'' (Some appCtx)]\<rparr>)"
    using t by (simp add: noRootConn_def fullConnection_def w0_def)
  have q: "ocStmt_QueryContext stubFmt noRootStmt appCtx [] w0 =
       (Some (Inr (Rows_parent stubRows)),
        \<lparr>nextSpan = 0, events = [EvCall ''StmtQueryContext.QueryContext'' (Some appCtx)]\<rparr>)"
    using t by (simp add: noRootStmt_def fullStmt_def w0_def)
  from h1 h2 h3 h4 p e b q show ?thesis by blast
qed

section \<open>C4: which calls a category flag gates\<close>

text \<open>
  C4, as stated, fails: with every category flag disabled and only \<open>AllowRoot\<close> set,
  \<open>BeginTx\<close> and \<open>QueryContext\<close> each start a span, hand the parent another context
  than the inbound one in the second case, and wrap the parent's result.
\<close>

theorem category_flag_disabled_counterexample:
  "\<not> Transaction (c_options rootOnlyConn) \<and> \<not> Ping (c_options rootOnlyConn)
   \<and> \<not> Query (c_options rootOnlyConn) \<and> \<not> QueryParams (c_options rootOnlyConn)
   \<and> \<not> RowsNext (c_options rootOnlyConn) \<and> \<not> RowsClose (c_options rootOnlyConn)
   \<and> \<not> RowsAffected (c_options rootOnlyConn) \<and> \<not> LastInsertID (c_options rootOnlyConn)
   \<and> ocConn_BeginTx rootOnlyConn Background txOpts w0 =
       (Inr (Tx_oc \<lparr>t_parent = stubTx, t_ctx = Background, t_options = TraceOptions_zero\<rparr>),
        \<lparr>nextSpan = 1,
         events =
           [EvStartSpan 0 None ''sql:begin_transaction'',
            EvCall ''ConnBeginTx.BeginTx'' (Some Background),
            EvSetStatus 0 \<lparr>Code = StatusCodeOK, Message = []\<rparr>,
            EvEnd 0]\<rparr>)
   \<and> ocConn_QueryContext stubFmt rootOnlyConn Background ''SELECT 1'' [] w0 =
       (Inr (Rows_oc \<lparr>rw_parent = stubRows, rw_ctx = WithSpan 0 Background,
                      rw_options = rootOnlyOptions\<rparr>),
        \<lparr>nextSpan = 1,
         events =
           [EvStartSpan 0 None ''sql:query'',
            EvCall ''QueryerContext.QueryContext'' (Some (WithSpan 0 Background)),
            EvSetStatus 0 \<lparr>Code = StatusCodeOK, Message = []\<rparr>,
            EvEnd 0]\<rparr>)"
  by (simp add: rootOnlyConn_def rootOnlyOptions_def TraceOptions_zero_def fullConnection_def
        txOpts_def w0_def ocConn_BeginTx_def ocConn_QueryContext_def tracer_defs statusOf_def)

text \<open>
  C4, amended. In \<open>src/options.go\<close>, of the calls of the decision table only \<open>Ping\<close>
  consults a category flag: with the \<open>Ping\<close> flag disabled it starts no span and
  forwards the call unchanged. \<open>Exec\<close>, \<open>ExecContext\<close>, \<open>Query\<close> and \<open>QueryContext\<close>, of
  a connection (where the parent implements the interface) and of a statement,
  \<open>Prepare\<close>, \<open>PrepareContext\<close> and \<open>BeginTx\<close> consult none: each starts exactly one
  span when \<open>AllowRoot\<close> is set or, for the calls with a context, the inbound context
  carries a span, and none otherwise.
\<close>

theorem only_ping_has_a_category_gate:
  "(\<not> Ping (c_options c) \<longrightarrow>
      ocConn_Ping c ctx w =
        (case conn_Ping (c_parent c) of
           Some ping \<Rightarrow> (ping ctx, w\<lparr>events := events w @ [EvCall ''Pinger.Ping'' (Some ctx)]\<rparr>)
         | None \<Rightarrow> (None, w)))
   \<and> (conn_Exec (c_parent c) \<noteq> None \<longrightarrow>
        started w (snd (ocConn_Exec F c query vals w)) =
          (if AllowRoot (c_options c) then [EvStartSpan (nextSpan w) None ''sql:exec''] else []))
   \<and> (conn_ExecContext (c_parent c) \<noteq> None \<longrightarrow>
        started w (snd (ocConn_ExecContext F c ctx query args w)) =
          (if AllowRoot (c_options c) \<or> FromContext ctx \<noteq> None
           then [EvStartSpan (nextSpan w) (FromContext ctx) ''sql:exec''] else []))
   \<and> (conn_Query (c_parent c) \<noteq> None \<longrightarrow>
        started w (snd (ocConn_Query F c query vals w)) =
          (if AllowRoot (c_options c) then [EvStartSpan (nextSpan w) None ''sql:query''] else []))
   \<and> (conn_QueryContext (c_parent c) \<noteq> None \<longrightarrow>
        started w (snd (ocConn_QueryContext F c ctx query args w)) =
          (if AllowRoot (c_options c) \<or> FromContext ctx \<noteq> None
           then [EvStartSpan (nextSpan w) (FromContext ctx) ''sql:query''] else []))
   \<and> started w (snd (ocConn_Prepare c query w)) =
         (if AllowRoot (c_options c) then [EvStartSpan (nextSpan w) None ''sql:prepare''] else [])
   \<and> started w (snd (ocConn_PrepareContext c ctx query w)) =
         (if AllowRoot (c_options c) \<or> FromContext ctx \<noteq> None
          then [EvStartSpan (nextSpan w) (FromContext ctx) ''sql:prepare''] else [])
   \<and> started w (snd (ocConn_BeginTx c ctx opts w)) =
         (if AllowRoot (c_options c) \<or> FromContext ctx \<noteq> None
          then [EvStartSpan (nextSpan w) (FromContext ctx) ''sql:begin_transaction''] else [])
   \<and> started w (snd (ocStmt_Exec F s vals w)) =
         (if AllowRoot (s_options s) then [EvStartSpan (nextSpan w) None ''sql:exec''] else [])
   \<and> started w (snd (ocStmt_ExecContext F s ctx args w)) =
         (if AllowRoot (s_options s) \<or> FromContext ctx \<noteq> None
          then [EvStartSpan (nextSpan w) (FromContext ctx) ''sql:exec''] else [])
   \<and> started w (snd (ocStmt_Query F s vals w)) =
         (if AllowRoot (s_options s) then [EvStartSpan (nextSpan w) None ''sql:query''] else [])
   \<and> started w (snd (ocStmt_QueryContext F s ctx args w)) =
         (if AllowRoot (s_options s) \<or> FromContext ctx \<noteq> None
          then [EvStartSpan (nextSpan w) (FromContext ctx) ''sql:query''] else [])"
proof (intro conjI impI)
  assume "\<not> Ping (c_options c)"
  then show "ocConn_Ping c ctx w =
        (case conn_Ping (c_parent c) of
           Some ping \<Rightarrow> (ping ctx, w\<lparr>events := events w @ [EvCall ''Pinger.Ping'' (Some ctx)]\<rparr>)
         | None \<Rightarrow> (None, w))"
    by (intro Ping_untraced) simp
qed (rule Exec_started ExecContext_started Query_started QueryContext_started Prepare_started
       PrepareContext_started BeginTx_started Stmt_Exec_started Stmt_ExecContext_started
       Stmt_Query_started Stmt_QueryContext_started, assumption?)+

theorem only_ping_has_a_category_gate_witness:
  "\<not> Ping (c_options rootOnlyConn)
   \<and> conn_Exec (c_parent rootOnlyConn) \<noteq> None
   \<and> conn_ExecContext (c_parent rootOnlyConn) \<noteq> None
   \<and> conn_Query (c_parent rootOnlyConn) \<noteq> None
   \<and> conn_QueryContext (c_parent rootOnlyConn) \<noteq> None
   \<and> ocConn_Ping rootOnlyConn Background w0 =
       (None, \<lparr>nextSpan = 0, events = [EvCall ''Pinger.Ping'' (Some Background)]\<rparr>)
   \<and> started w0 (snd (ocConn_Exec stubFmt rootOnlyConn ''SELECT 1'' [] w0)) =
       [EvStartSpan 0 None ''sql:exec'']
   \<and> started w0 (snd (ocConn_ExecContext stubFmt rootOnlyConn Background ''SELECT 1'' [] w0)) =
       [EvStartSpan 0 None ''sql:exec'']
   \<and> started w0 (snd (ocConn_Query stubFmt rootOnlyConn ''SELECT 1'' [] w0)) =
       [EvStartSpan 0 None ''sql:query'']
   \<and> started w0 (snd (ocConn_QueryContext stubFmt rootOnlyConn Background ''SELECT 1'' [] w0)) =
       [EvStartSpan 0 None ''sql:query'']
   \<and> started w0 (snd (ocConn_BeginTx rootOnlyConn Background txOpts w0)) =
       [EvStartSpan 0 None ''sql:begin_transaction'']
   \<and> started w0 (snd (ocStmt_Exec stubFmt rootOnlyStmt [] w0)) =
       [EvStartSpan 0 None ''sql:exec'']
   \<and> started w0 (snd (ocStmt_QueryContext stubFmt rootOnlyStmt Background [] w0)) =
       [EvStartSpan 0 None ''sql:query'']"
proof -
  have h: "\<not> Ping (c_options rootOnlyConn)"
      "conn_Exec (c_parent rootOnlyConn) \<noteq> None"
      "conn_ExecContext (c_parent rootOnlyConn) \<noteq> None"
      "conn_Query (c_parent rootOnlyConn) \<noteq> None"
      "conn_QueryContext (c_parent rootOnlyConn) \<noteq> None"
    by (simp_all add: rootOnlyConn_def rootOnlyOptions_def TraceOptions_zero_def fullConnection_def)
  have a: "AllowRoot (c_options rootOnlyConn)"
    by (simp add: rootOnlyConn_def rootOnlyOptions_def)
  have a': "AllowRoot (s_options rootOnlyStmt)"
    by (simp add: rootOnlyStmt_def rootOnlyOptions_def)
  note t = only_ping_has_a_category_gate [where c = rootOnlyConn and ctx = Background and w = w0
      and F = stubFmt and query = "''SELECT 1''" and vals = "[]" and args = "[]" and opts = txOpts
      and s = rootOnlyStmt]
  have p: "ocConn_Ping rootOnlyConn Background w0 =
       (None, \<lparr>nextSpan = 0, events = [EvCall ''Pinger.Ping'' (Some Background)]\<rparr>)"
    using t h by (simp add: rootOnlyConn_def fullConnection_def w0_def)
  have s: "started w0 (snd (ocConn_Exec stubFmt rootOnlyConn ''SELECT 1'' [] w0)) =
       [EvStartSpan 0 None ''sql:exec'']"
     "started w0 (snd (ocConn_ExecContext stubFmt rootOnlyConn Background ''SELECT 1'' [] w0)) =
       [EvStartSpan 0 None ''sql:exec'']"
     "started w0 (snd (ocConn_Query stubFmt rootOnlyConn ''SELECT 1'' [] w0)) =
       [EvStartSpan 0 None ''sql:query'']"
     "started w0 (snd (ocConn_QueryContext stubFmt rootOnlyConn Background ''SELECT 1'' [] w0)) =
       [EvStartSpan 0 None ''sql:query'']"
     "started w0 (snd (ocConn_BeginTx rootOnlyConn Background txOpts w0)) =
       [EvStartSpan 0 None ''sql:begin_transaction'']"
    using t h a by (simp_all add: w0_def)
  have s': "started w0 (snd (ocStmt_Exec stubFmt rootOnlyStmt [] w0)) =
       [EvStartSpan 0 None ''sql:exec'']"
     "started w0 (snd (ocStmt_QueryContext stubFmt rootOnlyStmt Background [] w0)) =
       [EvStartSpan 0 None ''sql:query'']"
    using t a' by (simp_all add: w0_def)
  from h p s s' show ?thesis by blast
qed

section \<open>C10: Ping on a connection without a Pinger\<close>

text \<open>
  C10. Where the parent connection does not implement \<open>driver.Pinger\<close>, \<open>Ping\<close> returns
  nil and calls no method of the parent; when the ping is traced (the \<open>Ping\<close> flag, and
  \<open>AllowRoot\<close> or a span in the context) a span is still opened, given the status OK
  and closed, and otherwise nothing happens at all.
\<close>

theorem ping_without_pinger:
  "conn_Ping (c_parent c) = None \<Longrightarrow>
   ocConn_Ping c ctx w =
     (None,
      if Ping (c_options c) \<and> (AllowRoot (c_options c) \<or> FromContext ctx \<noteq> None) then
        w\<lparr>nextSpan := Suc (nextSpan w),
          events := events w @
            [EvStartSpan (nextSpan w) (FromContext ctx) ''sql:ping'',
             EvSetStatus (nextSpan w) \<lparr>Code = StatusCodeOK, Message = []\<rparr>,
             EvEnd (nextSpan w)]\<rparr>
      else w)"
  by (simp add: ocConn_Ping_def tracer_defs)

theorem ping_without_pinger_witness:
  "conn_Ping (c_parent stubConn) = None
   \<and> ocConn_Ping stubConn Background w0 =
       (None,
        \<lparr>nextSpan = 1,
         events =
           [EvStartSpan 0 None ''sql:ping'',
            EvSetStatus 0 \<lparr>Code = StatusCodeOK, Message = []\<rparr>,
            EvEnd 0]\<rparr>)
   \<and> ocConn_Ping (stubConn\<lparr>c_options := noRootOptions\<rparr>) Background w0 = (None, w0)"
proof -
  have h: "conn_Ping (c_parent stubConn) = None"
    by (simp add: stubConn_def stubConnection_def)
  have h': "conn_Ping (c_parent (stubConn\<lparr>c_options := noRootOptions\<rparr>)) = None"
    by (simp add: stubConn_def stubConnection_def)
  have a: "ocConn_Ping stubConn Background w0 =
       (None,
        \<lparr>nextSpan = 1,
         events =
           [EvStartSpan 0 None ''sql:ping'',
            EvSetStatus 0 \<lparr>Code = StatusCodeOK, Message = []\<rparr>,
            EvEnd 0]\<rparr>)"
    using ping_without_pinger [OF h, of Background w0]
    by (simp add: stubConn_def TraceAll_def w0_def)
  have b: "ocConn_Ping (stubConn\<lparr>c_options := noRootOptions\<rparr>) Background w0 = (None, w0)"
    using ping_without_pinger [OF h', of Background w0]
    by (simp add: noRootOptions_def)
  from h a b show ?thesis by blast
qed

section \<open>C7: the parent's error is the wrapper's error\<close>

text \<open>
  C7. At every tier, the error a method of the wrapper returns is the error the parent's
  method returned for the call the wrapper made (nil when the parent returned nil):
  recording the status changes nothing, also where the status recorded differs from the
  error (\<open>io.EOF\<close> in \<open>Rows.Next\<close>). The context handed to the parent is the inbound
  one, or the one that carries the span the wrapper just opened.
\<close>

theorem parent_errors_are_returned_unchanged:
  "error_of (fst (ocDriver_Open d name w)) = error_of (driver_Open (d_parent d) name)
   \<and> (\<forall>ping. conn_Ping (c_parent c) = Some ping \<longrightarrow>
         fst (ocConn_Ping c ctx w) =
           ping (if Ping (c_options c) \<and> (AllowRoot (c_options c) \<or> FromContext ctx \<noteq> None)
                 then WithSpan (nextSpan w) ctx else ctx))
   \<and> (\<forall>exec. conn_Exec (c_parent c) = Some exec \<longrightarrow>
         error_of (fst (ocConn_Exec F c query vals w)) = error_of (exec query vals))
   \<and> (\<forall>execCtx. conn_ExecContext (c_parent c) = Some execCtx \<longrightarrow>
         error_of (fst (ocConn_ExecContext F c ctx query args w)) =
           error_of (execCtx (if AllowRoot (c_options c) \<and> FromContext ctx = None
                              then WithSpan (nextSpan w) ctx else ctx) query args))
   \<and> (\<forall>queryer. conn_Query (c_parent c) = Some queryer \<longrightarrow>
         error_of (fst (ocConn_Query F c query vals w)) = error_of (queryer query vals))
   \<and> (\<forall>queryerCtx. conn_QueryContext (c_parent c) = Some queryerCtx \<longrightarrow>
         error_of (fst (ocConn_QueryContext F c ctx query args w)) =
           error_of (queryerCtx (if AllowRoot (c_options c) \<and> FromContext ctx = None
                                 then WithSpan (nextSpan w) ctx else ctx) query args))
   \<and> error_of (fst (ocConn_Prepare c query w)) = error_of (conn_Prepare (c_parent c) query)
   \<and> error_of (fst (ocConn_PrepareContext c ctx query w)) =
       (case conn_PrepareContext (c_parent c) of
          Some prepCtx \<Rightarrow>
            error_of (prepCtx (if AllowRoot (c_options c) \<or> FromContext ctx \<noteq> None
                               then WithSpan (nextSpan w) ctx else ctx) query)
        | None \<Rightarrow> error_of (conn_Prepare (c_parent c) query))
   \<and> fst (ocConn_Close c w) = conn_Close (c_parent c)
   \<and> error_of (fst (ocConn_BeginTx c ctx opts w)) =
       (case conn_BeginTx (c_parent c) of
          Some connBeginTx \<Rightarrow>
            error_of (connBeginTx (if AllowRoot (c_options c) \<and> ctx = TODO then Background else ctx) opts)
        | None \<Rightarrow> error_of (conn_Begin (c_parent c)))
   \<and> fst (ocResult_LastInsertId r w) = result_LastInsertId (r_parent r)
   \<and> fst (ocResult_RowsAffected r w) = result_RowsAffected (r_parent r)
   \<and> error_of (fst (ocStmt_Exec F s vals w)) = error_of (stmt_Exec (s_parent s) vals)
   \<and> error_of (fst (ocStmt_Query F s vals w)) = error_of (stmt_Query (s_parent s) vals)
   \<and> fst (ocStmt_Close s w) = stmt_Close (s_parent s)
   \<and> (\<forall>execContext. stmt_ExecContext (s_parent s) = Some execContext \<longrightarrow>
         map_option error_of (fst (ocStmt_ExecContext F s ctx args w)) =
           Some (error_of (execContext (if AllowRoot (s_options s) \<and> FromContext ctx = None
                                        then WithSpan (nextSpan w) ctx else ctx) args)))
   \<and> (\<forall>queryContext. stmt_QueryContext (s_parent s) = Some queryContext \<longrightarrow>
         map_option error_of (fst (ocStmt_QueryContext F s ctx args w)) =
           Some (error_of (queryContext (if AllowRoot (s_options s) \<and> FromContext ctx = None
                                         then WithSpan (nextSpan w) ctx else ctx) args)))
   \<and> fst (ocRows_Close rows w) = rows_Close (rw_parent rows)
   \<and> fst (ocRows_Next rows dest w) = rows_Next (rw_parent rows) dest
   \<and> fst (ocTx_Commit t w) = tx_Commit (t_parent t)
   \<and> fst (ocTx_Rollback t w) = tx_Rollback (t_parent t)"
  by (intro conjI allI impI)
     (rule Open_error Prepare_error PrepareContext_error Close_error BeginTx_error
        LastInsertId_result RowsAffected_result Stmt_Exec_error Stmt_Query_error
        Stmt_Close_error Rows_Close_error Rows_Next_error Commit_error Rollback_error
      | erule Ping_error Exec_error ExecContext_error Query_error QueryContext_error
          Stmt_ExecContext_error Stmt_QueryContext_error)+

theorem parent_errors_are_returned_unchanged_witness:
  "fst (ocConn_Ping doneConn appCtx w0) = Some sql_ErrConnDone
   \<and> fst (ocConn_Exec stubFmt doneConn ''SELECT 1'' [] w0) = Inl sql_ErrConnDone
   \<and> fst (ocConn_ExecContext stubFmt doneConn appCtx ''SELECT 1'' [] w0) = Inl sql_ErrConnDone
   \<and> fst (ocConn_Query stubFmt doneConn ''SELECT 1'' [] w0) = Inl sql_ErrConnDone
   \<and> fst (ocConn_QueryContext stubFmt doneConn appCtx ''SELECT 1'' [] w0) = Inl sql_ErrConnDone
   \<and> fst (ocStmt_ExecContext stubFmt doneOcStmt appCtx [] w0) = Some (Inl sql_ErrConnDone)
   \<and> fst (ocStmt_QueryContext stubFmt doneOcStmt appCtx [] w0) = Some (Inl sql_ErrConnDone)
   \<and> fst (ocRows_Next eofRows [] w0) = Some io_EOF"
proof -
  note t = parent_errors_are_returned_unchanged [where c = doneConn and s = doneOcStmt
      and ctx = appCtx and w = w0 and F = stubFmt and query = "''SELECT 1''" and vals = "[]"
      and args = "[]" and rows = eofRows and dest = "[]"]
  have p: "conn_Ping (c_parent doneConn) = Some (\<lambda>ctx. Some sql_ErrConnDone)"
    and e: "conn_Exec (c_parent doneConn) = Some (\<lambda>query args. Inl sql_ErrConnDone)"
    and ec: "conn_ExecContext (c_parent doneConn) = Some (\<lambda>ctx query args. Inl sql_ErrConnDone)"
    and q: "conn_Query (c_parent doneConn) = Some (\<lambda>query args. Inl sql_ErrConnDone)"
    and qc: "conn_QueryContext (c_parent doneConn) = Some (\<lambda>ctx query args. Inl sql_ErrConnDone)"
    and se: "stmt_ExecContext (s_parent doneOcStmt) = Some (\<lambda>ctx args. Inl sql_ErrConnDone)"
    and sq: "stmt_QueryContext (s_parent doneOcStmt) = Some (\<lambda>ctx args. Inl sql_ErrConnDone)"
    and n: "rows_Next (rw_parent eofRows) [] = Some io_EOF"
    by (simp_all add: doneConn_def doneConnection_def doneOcStmt_def doneStmt_def eofRows_def
          doneRows_def)
  have inl: "\<And>x e. error_of x = Some e \<Longrightarrow> x = Inl e"
    by (simp add: error_of_def split: sum.splits)
  have inl': "\<And>x e. map_option error_of x = Some (Some e) \<Longrightarrow> x = Some (Inl e)"
  proof -
    fix x :: "(error + 'b) option" and e
    assume a: "map_option error_of x = Some (Some e)"
    then obtain y where y: "x = Some y" by (cases x) simp_all
    with a have "error_of y = Some e" by simp
    then have "y = Inl e" by (rule inl)
    with y show "x = Some (Inl e)" by simp
  qed
  have 1: "fst (ocConn_Ping doneConn appCtx w0) = Some sql_ErrConnDone"
    using t p by simp
  have 2: "fst (ocConn_Exec stubFmt doneConn ''SELECT 1'' [] w0) = Inl sql_ErrConnDone"
    using t e by (intro inl) (simp add: error_of_def)
  have 3: "fst (ocConn_ExecContext stubFmt doneConn appCtx ''SELECT 1'' [] w0) = Inl sql_ErrConnDone"
    using t ec by (intro inl) (simp add: error_of_def)
  have 4: "fst (ocConn_Query stubFmt doneConn ''SELECT 1'' [] w0) = Inl sql_ErrConnDone"
    using t q by (intro inl) (simp add: error_of_def)
  have 5: "fst (ocConn_QueryContext stubFmt doneConn appCtx ''SELECT 1'' [] w0) = Inl sql_ErrConnDone"
    using t qc by (intro inl) (simp add: error_of_def)
  have 6: "fst (ocStmt_ExecContext stubFmt doneOcStmt appCtx [] w0) = Some (Inl sql_ErrConnDone)"
    using t se by (intro inl') (simp add: error_of_def)
  have 7: "fst (ocStmt_QueryContext stubFmt doneOcStmt appCtx [] w0) = Some (Inl sql_ErrConnDone)"
    using t sq by (intro inl') (simp add: error_of_def)
  have 8: "fst (ocRows_Next eofRows [] w0) = Some io_EOF"
    using t n by simp
  from 1 2 3 4 5 6 7 8 show ?thesis by blast
qed

section \<open>C9: parameters are captured only with the query text\<close>

lemma Wrap_options:
  "d_options (Wrap d options) =
     (applyOptions options)
       \<lparr>QueryParams := QueryParams (applyOptions options) \<and> Query (applyOptions options)\<rparr>"
  by (cases "applyOptions options") (auto simp add: Wrap_def Let_def)

lemma Wrap_consistent: "consistent (d_options (Wrap d options))"
  by (simp add: Wrap_def Let_def consistent_def)

lemma wrapStmt_options: "set (Stmt_options (wrapStmt stmt query opts)) = {opts}"
  by (simp add: wrapStmt_def Let_def split: bool.splits)

lemma held_Result_parent [simp]: "held Result_options (map_sum id Result_parent r) = []"
  by (cases r) (simp_all add: held_def)

lemma held_Rows_parent [simp]: "held Rows_options (map_sum id Rows_parent r) = []"
  by (cases r) (simp_all add: held_def)

lemma held_Tx_parent [simp]: "held Tx_options (map_sum id Tx_parent r) = []"
  by (cases r) (simp_all add: held_def)

lemma held_wrapped [simp]:
  "set (held f (case r of Inl err \<Rightarrow> Inl err | Inr x \<Rightarrow> Inr (g x))) \<subseteq> A
     \<longleftrightarrow> (\<forall>x. r = Inr x \<longrightarrow> set (f (g x)) \<subseteq> A)"
  by (cases r) (simp_all add: held_def)

lemma held_error [simp]: "held f (Inl err) = []"
  by (simp add: held_def)

lemma Open_options:
  "set (held Conn_options (fst (ocDriver_Open d name w))) \<subseteq> {d_options d}"
  by (simp add: ocDriver_Open_def held_def tracer_defs split: sum.splits)

lemma Exec_options:
  "set (held Result_options (fst (ocConn_Exec F c query vals w))) \<subseteq> {c_options c}"
  by (cases "conn_Exec (c_parent c)")
     (simp_all add: ocConn_Exec_def tracer_defs split: prod.splits)

lemma ExecContext_options:
  "set (held Result_options (fst (ocConn_ExecContext F c ctx query args w))) \<subseteq> {c_options c}"
  by (cases "conn_ExecContext (c_parent c)")
     (simp_all add: ocConn_ExecContext_def tracer_defs split: prod.splits)

lemma Query_options:
  "set (held Rows_options (fst (ocConn_Query F c query vals w))) \<subseteq> {c_options c}"
  by (cases "conn_Query (c_parent c)")
     (simp_all add: ocConn_Query_def tracer_defs split: prod.splits)

lemma QueryContext_options:
  "set (held Rows_options (fst (ocConn_QueryContext F c ctx query args w))) \<subseteq> {c_options c}"
  by (cases "conn_QueryContext (c_parent c)")
     (simp_all add: ocConn_QueryContext_def tracer_defs split: prod.splits)

lemma Prepare_options:
  "set (held Stmt_options (fst (ocConn_Prepare c query w))) \<subseteq> {c_options c}"
  by (simp add: ocConn_Prepare_def tracer_defs wrapStmt_options split: prod.splits)

lemma PrepareContext_options:
  "set (held Stmt_options (fst (ocConn_PrepareContext c ctx query w))) \<subseteq> {c_options c}"
  by (cases "conn_PrepareContext (c_parent c)")
     (simp_all add: ocConn_PrepareContext_def tracer_defs wrapStmt_options split: prod.splits)

lemma BeginTx_options:
  "set (held Tx_options (fst (ocConn_BeginTx c ctx opts w))) \<subseteq> {TraceOptions_zero}"
  by (cases "conn_BeginTx (c_parent c)"; cases "ctx = TODO")
     (simp_all add: ocConn_BeginTx_def tracer_defs split: prod.splits)

lemma Stmt_Exec_options:
  "set (held Result_options (fst (ocStmt_Exec F s vals w))) \<subseteq> {s_options s}"
  by (simp add: ocStmt_Exec_def tracer_defs split: prod.splits)

lemma Stmt_Query_options:
  "set (held Rows_options (fst (ocStmt_Query F s vals w))) \<subseteq> {s_options s}"
  by (simp add: ocStmt_Query_def tracer_defs split: prod.splits)

lemma Stmt_ExecContext_options:
  "set (held_opt Result_options (fst (ocStmt_ExecContext F s ctx args w))) \<subseteq> {s_options s}"
  by (cases "stmt_ExecContext (s_parent s)")
     (simp_all add: ocStmt_ExecContext_def held_opt_def tracer_defs split: prod.splits)

lemma Stmt_QueryContext_options:
  "set (held_opt Rows_options (fst (ocStmt_QueryContext F s ctx args w))) \<subseteq> {s_options s}"
  by (cases "stmt_QueryContext (s_parent s)")
     (simp_all add: ocStmt_QueryContext_def held_opt_def tracer_defs split: prod.splits)

lemma consistent_zero: "consistent TraceOptions_zero"
  by (simp add: consistent_def TraceOptions_zero_def)

lemma all_consistent: "set xs \<subseteq> {opts} \<Longrightarrow> consistent opts \<Longrightarrow> list_all consistent xs"
  by (auto simp add: list_all_iff)


text \<open>
  C9. Whatever options are passed to \<open>Wrap\<close>, the options the wrapper keeps are those
  the options build, with \<open>QueryParams\<close> kept only where \<open>Query\<close> is set: if they ask
  for \<open>QueryParams\<close> without \<open>Query\<close>, \<open>QueryParams\<close> is forced to false. Every
  decorator made from there on holds consistent options: \<open>Open\<close> hands the driver's
  options to the connection, the connection's methods hand theirs to the statements,
  results and rows they wrap, a statement's methods likewise, and a transaction holds the
  zero options.
\<close>

theorem query_params_only_with_query:
  "d_options (Wrap d options) =
     (applyOptions options)
       \<lparr>QueryParams := QueryParams (applyOptions options) \<and> Query (applyOptions options)\<rparr>
   \<and> (QueryParams (applyOptions options) \<and> \<not> Query (applyOptions options)
        \<longrightarrow> \<not> QueryParams (d_options (Wrap d options)))
   \<and> consistent (d_options (Wrap d options))
   \<and> (consistent (d_options dr)
        \<longrightarrow> list_all consistent (held Conn_options (fst (ocDriver_Open dr name w))))
   \<and> (consistent (c_options c)
        \<longrightarrow> list_all consistent (held Result_options (fst (ocConn_Exec F c query vals w)))
          \<and> list_all consistent (held Result_options (fst (ocConn_ExecContext F c ctx query args w)))
          \<and> list_all consistent (held Rows_options (fst (ocConn_Query F c query vals w)))
          \<and> list_all consistent (held Rows_options (fst (ocConn_QueryContext F c ctx query args w)))
          \<and> list_all consistent (held Stmt_options (fst (ocConn_Prepare c query w)))
          \<and> list_all consistent (held Stmt_options (fst (ocConn_PrepareContext c ctx query w))))
   \<and> list_all consistent (held Tx_options (fst (ocConn_BeginTx c ctx opts w)))
   \<and> (consistent (s_options s)
        \<longrightarrow> list_all consistent (held Result_options (fst (ocStmt_Exec F s vals w)))
          \<and> list_all consistent (held Rows_options (fst (ocStmt_Query F s vals w)))
          \<and> list_all consistent (held_opt Result_options (fst (ocStmt_ExecContext F s ctx args w)))
          \<and> list_all consistent (held_opt Rows_options (fst (ocStmt_QueryContext F s ctx args w))))"
proof (intro conjI impI)
  show "d_options (Wrap d options) =
     (applyOptions options)
       \<lparr>QueryParams := QueryParams (applyOptions options) \<and> Query (applyOptions options)\<rparr>"
    by (rule Wrap_options)
  show "consistent (d_options (Wrap d options))"
    by (rule Wrap_consistent)
  show "list_all consistent (held Tx_options (fst (ocConn_BeginTx c ctx opts w)))"
    by (rule all_consistent [OF BeginTx_options consistent_zero])
  assume "QueryParams (applyOptions options) \<and> \<not> Query (applyOptions options)"
  then show "\<not> QueryParams (d_options (Wrap d options))"
    by (simp add: Wrap_options)
qed (erule all_consistent [rotated],
     rule Open_options Exec_options ExecContext_options Query_options QueryContext_options
       Prepare_options PrepareContext_options Stmt_Exec_options Stmt_Query_options
       Stmt_ExecContext_options Stmt_QueryContext_options)+

theorem query_params_only_with_query_witness:
  "QueryParams (applyOptions [WithOptions TraceAll, WithQuery False])
   \<and> \<not> Query (applyOptions [WithOptions TraceAll, WithQuery False])
   \<and> d_options (Wrap stubDriver [WithOptions TraceAll, WithQuery False]) =
       TraceAll\<lparr>Query := False, QueryParams := False\<rparr>
   \<and> consistent (c_options stubConn)
   \<and> consistent (s_options doneOcStmt)
   \<and> held Stmt_options (fst (ocConn_Prepare stubConn ''SELECT 1'' w0)) = [TraceAll]
   \<and> list_all consistent (held Stmt_options (fst (ocConn_Prepare stubConn ''SELECT 1'' w0)))"
proof -
  have a: "QueryParams (applyOptions [WithOptions TraceAll, WithQuery False])
      \<and> \<not> Query (applyOptions [WithOptions TraceAll, WithQuery False])"
    by (simp add: applyOptions_def WithOptions_def WithQuery_def TraceAll_def)
  have ap: "applyOptions [WithOptions TraceAll, WithQuery False] = TraceAll\<lparr>Query := False\<rparr>"
    by (simp add: applyOptions_def WithOptions_def WithQuery_def)
  have c: "consistent (c_options stubConn)" and s: "consistent (s_options doneOcStmt)"
    by (simp_all add: consistent_def stubConn_def doneOcStmt_def TraceAll_def)
  note t = query_params_only_with_query [where d = stubDriver
      and options = "[WithOptions TraceAll, WithQuery False]" and c = stubConn and s = doneOcStmt
      and query = "''SELECT 1''" and w = w0]
  have w: "d_options (Wrap stubDriver [WithOptions TraceAll, WithQuery False]) =
       TraceAll\<lparr>Query := False, QueryParams := False\<rparr>"
    using t a by (simp add: ap)
  have p: "list_all consistent (held Stmt_options (fst (ocConn_Prepare stubConn ''SELECT 1'' w0)))"
    using t c by blast
  have h: "held Stmt_options (fst (ocConn_Prepare stubConn ''SELECT 1'' w0)) = [TraceAll]"
    by (simp add: ocConn_Prepare_def tracer_defs stubConn_def stubConnection_def stubStmt_def
          wrapStmt_def held_def TraceAll_def)
  from a w c s h p show ?thesis by blast
qed

section \<open>C6: the attribute encoder\<close>

lemma namedParamsAttr_map:
  "namedParamsAttr F args = map (\<lambda>arg. argToAttr F (namedKey arg) (nv_Value arg)) args"
  by (induction args) simp_all

lemma paramsAttr_from_length: "length (paramsAttr_from F k vals) = length vals"
  by (induction vals arbitrary: k) simp_all

lemma paramsAttr_from_nth:
  "i < length vals \<Longrightarrow>
   paramsAttr_from F k vals ! i = argToAttr F (''sql.arg'' @ Itoa (int (k + i))) (vals ! i)"
proof (induction vals arbitrary: k i)
  case Nil
  then show ?case by simp
next
  case (Cons v vals)
  show ?case
  proof (cases i)
    case 0
    then show ?thesis by simp
  next
    case (Suc j)
    with Cons.prems have "j < length vals" by simp
    from Cons.IH [OF this, of "Suc k"] Suc show ?thesis by simp
  qed
qed

lemma argToAttr_cases:
  "argToAttr F key VNil = StringAttribute key []"
  "argToAttr F key (VInt64 n) = Int64Attribute key n"
  "argToAttr F key (VFloat64 f) = StringAttribute key (Sprintf_f F f)"
  "argToAttr F key (VBool b) = BoolAttribute key b"
  "argToAttr F key (VBytes bs) = StringAttribute key (take 256 bs)"
  "argToAttr F key (VString str) = StringAttribute key (take 256 str)"
  "argToAttr F key (VOther dyn) = StringAttribute key (take 256 (Sprintf_v_dynamic F dyn))"
  by (simp_all add: argToAttr_def Let_def)

lemma accented_length: "length (accented n) = 2 * n"
  by (induction n) (simp_all add: accented_def e_acute_def)

lemma accented_RuneCount: "RuneCount (accented n) = n"
  by (induction n) (simp_all add: accented_def e_acute_def RuneCount_def is_continuation_def)

lemma accented_take: "k \<le> n \<Longrightarrow> take (2 * k) (accented n) = accented k"
proof (induction n arbitrary: k)
  case 0
  then show ?case by (simp add: accented_def)
next
  case (Suc n)
  show ?case
  proof (cases k)
    case 0
    then show ?thesis by (simp add: accented_def)
  next
    case (Suc j)
    with Suc.prems have "j \<le> n" by simp
    from Suc.IH [OF this] Suc show ?thesis
      by (simp add: accented_def e_acute_def)
  qed
qed

text \<open>
  C6, as stated, fails where it says that any other value is truncated to 256
  characters: the cut is at 256 bytes. A string of 200 accented letters has 200
  characters, fewer than 256, and 400 bytes; its attribute keeps the first 256 bytes,
  which are 128 characters.
\<close>

theorem truncation_counts_bytes_counterexample:
  "RuneCount (accented 200) = 200
   \<and> argToAttr stubFmt ''name'' (VString (accented 200)) = StringAttribute ''name'' (accented 128)
   \<and> RuneCount (accented 128) = 128
   \<and> length (accented 128) = 256"
proof -
  have "take 256 (accented 200) = accented 128"
    using accented_take [of 128 200] by simp
  then show ?thesis
    by (simp add: argToAttr_def accented_length accented_RuneCount)
qed

text \<open>
  C6, amended. Every parameter becomes exactly one attribute, in order. A named
  parameter is keyed by its name, an unnamed one by \<open>sql.arg.\<close> and its ordinal; a
  positional parameter by \<open>sql.arg\<close> and its index. The value is encoded by type: nil as
  the empty string, an \<open>int64\<close> as an integer attribute, a \<open>float64\<close> as the string
  \<open>Sprintf("%f")\<close> gives, a \<open>bool\<close> as a boolean attribute, a byte slice as the string
  of its first 256 bytes (exactly 256 when it is longer), any other value as the
  first 256 bytes of its \<open>%v\<close> rendering (for a string, of the string itself).
\<close>

theorem parameters_become_attributes:
  "namedParamsAttr F args = map (\<lambda>arg. argToAttr F (namedKey arg) (nv_Value arg)) args
   \<and> length (namedParamsAttr F args) = length args
   \<and> (nv_Name arg \<noteq> [] \<longrightarrow> namedKey arg = nv_Name arg)
   \<and> (nv_Name arg = [] \<longrightarrow> namedKey arg = ''sql.arg.'' @ Itoa (nv_Ordinal arg))
   \<and> length (paramsAttr F vals) = length vals
   \<and> (\<forall>i. i < length vals \<longrightarrow>
         paramsAttr F vals ! i = argToAttr F (''sql.arg'' @ Itoa (int i)) (vals ! i))
   \<and> argToAttr F key VNil = StringAttribute key []
   \<and> argToAttr F key (VInt64 n) = Int64Attribute key n
   \<and> argToAttr F key (VFloat64 f) = StringAttribute key (Sprintf_f F f)
   \<and> argToAttr F key (VBool b) = BoolAttribute key b
   \<and> argToAttr F key (VBytes bs) = StringAttribute key (take 256 bs)
   \<and> (length bs > 256 \<longrightarrow> length (take 256 bs) = 256)
   \<and> (length bs \<le> 256 \<longrightarrow> take 256 bs = bs)
   \<and> argToAttr F key (VString str) = StringAttribute key (take 256 str)
   \<and> argToAttr F key (VOther dyn) = StringAttribute key (take 256 (Sprintf_v_dynamic F dyn))"
proof -
  have n: "length (namedParamsAttr F args) = length args"
    by (simp add: namedParamsAttr_map)
  have k: "(nv_Name arg \<noteq> [] \<longrightarrow> namedKey arg = nv_Name arg)
      \<and> (nv_Name arg = [] \<longrightarrow> namedKey arg = ''sql.arg.'' @ Itoa (nv_Ordinal arg))"
    by (simp add: namedKey_def)
  have p: "length (paramsAttr F vals) = length vals"
    by (simp add: paramsAttr_def paramsAttr_from_length)
  have q: "\<forall>i. i < length vals \<longrightarrow>
         paramsAttr F vals ! i = argToAttr F (''sql.arg'' @ Itoa (int i)) (vals ! i)"
    using paramsAttr_from_nth [of _ vals F 0] by (simp add: paramsAttr_def)
  have t: "(length bs > 256 \<longrightarrow> length (take 256 bs) = 256) \<and> (length bs \<le> 256 \<longrightarrow> take 256 bs = bs)"
    by simp
  from namedParamsAttr_map [of F args] n k p q t argToAttr_cases [of F key]
  show ?thesis by simp
qed

theorem parameters_become_attributes_witness:
  "namedParamsAttr stubFmt
     [\<lparr>nv_Name = ''id'', nv_Ordinal = 1, nv_Value = VInt64 7\<rparr>,
      \<lparr>nv_Name = [], nv_Ordinal = 12, nv_Value = VBytes (replicate 300 (CHR ''x''))\<rparr>] =
     [Int64Attribute ''id'' 7, StringAttribute ''sql.arg.12'' (replicate 256 (CHR ''x''))]
   \<and> paramsAttr stubFmt [VNil, VBool True] =
     [StringAttribute ''sql.arg0'' [], BoolAttribute ''sql.arg1'' True]
   \<and> length (replicate 300 (CHR ''x'')) > 256
   \<and> length (take 256 (replicate 300 (CHR ''x''))) = 256"
proof -
  have l: "length (replicate 300 (CHR ''x'')) > 256"
    by simp
  have o: "nv_Name \<lparr>nv_Name = [], nv_Ordinal = 12, nv_Value = VBytes (replicate 300 (CHR ''x''))\<rparr> = []"
    by simp
  note t = parameters_become_attributes [where F = stubFmt
      and args = "[\<lparr>nv_Name = ''id'', nv_Ordinal = 1, nv_Value = VInt64 7\<rparr>,
        \<lparr>nv_Name = [], nv_Ordinal = 12, nv_Value = VBytes (replicate 300 (CHR ''x''))\<rparr>]"
      and arg = "\<lparr>nv_Name = [], nv_Ordinal = 12, nv_Value = VBytes (replicate 300 (CHR ''x''))\<rparr>"
      and vals = "[VNil, VBool True]" and bs = "replicate 300 (CHR ''x'')"]
  have i: "Itoa 12 = ''12''" "Itoa 0 = ''0''" "Itoa 1 = ''1''"
    by (simp_all add: Itoa_def FormatUint.simps digit_def)
  have a: "namedParamsAttr stubFmt
     [\<lparr>nv_Name = ''id'', nv_Ordinal = 1, nv_Value = VInt64 7\<rparr>,
      \<lparr>nv_Name = [], nv_Ordinal = 12, nv_Value = VBytes (replicate 300 (CHR ''x''))\<rparr>] =
     [Int64Attribute ''id'' 7, StringAttribute ''sql.arg.12'' (replicate 256 (CHR ''x''))]"
    using t o by (simp add: i namedKey_def argToAttr_cases)
  have len: "length (paramsAttr stubFmt [VNil, VBool True]) = 2"
    using t by simp
  have n0: "paramsAttr stubFmt [VNil, VBool True] ! 0 = StringAttribute ''sql.arg0'' []"
    using t by (simp add: i argToAttr_cases)
  have n1: "paramsAttr stubFmt [VNil, VBool True] ! 1 = BoolAttribute ''sql.arg1'' True"
    using t by (simp add: i argToAttr_cases)
  have b: "paramsAttr stubFmt [VNil, VBool True] =
     [StringAttribute ''sql.arg0'' [], BoolAttribute ''sql.arg1'' True]"
    using len n0 n1 by (auto simp add: list_eq_iff_nth_eq dest!: less_2_cases)
  have c: "length (take 256 (replicate 300 (CHR ''x''))) = 256"
    using t l by blast
  from a b l c show ?thesis by blast
qed

section \<open>C1 and C2: the optional interfaces of a wrapper\<close>

lemma wrapStmt_exts:
  "stmt_exts (Stmt_methods (wrapStmt stmt query opts)) = stmt_exts (parent_stmt_methods stmt)"
  by (simp add: wrapStmt_def Let_def stmt_exts_def parent_stmt_methods_def driver_Stmt_methods_def
        split: bool.splits)

lemma ocConn_exts:
  "conn_exts (Conn_methods conn) =
     [Pinger, Execer, ExecerContext, Queryer, QueryerContext, ConnPrepareContext, ConnBeginTx]"
  by (cases conn) (simp add: conn_exts_def ocConn_methods_def)

lemma Prepare_exts:
  "map_sum id (\<lambda>st. stmt_exts (Stmt_methods st)) (fst (ocConn_Prepare c query w)) =
   map_sum id (\<lambda>p. stmt_exts (parent_stmt_methods p)) (conn_Prepare (c_parent c) query)"
  by (cases "conn_Prepare (c_parent c) query")
     (simp_all add: ocConn_Prepare_def tracer_defs wrapStmt_exts split: prod.splits)

lemma PrepareContext_exts:
  "map_sum id (\<lambda>st. stmt_exts (Stmt_methods st)) (fst (ocConn_PrepareContext c ctx query w)) =
   map_sum id (\<lambda>p. stmt_exts (parent_stmt_methods p))
     (case conn_PrepareContext (c_parent c) of
        Some prepCtx \<Rightarrow>
          prepCtx (if AllowRoot (c_options c) \<or> FromContext ctx \<noteq> None
                   then WithSpan (nextSpan w) ctx else ctx) query
      | None \<Rightarrow> conn_Prepare (c_parent c) query)"
  by (cases "conn_PrepareContext (c_parent c)")
     (simp_all add: ocConn_PrepareContext_def tracer_defs wrapStmt_exts split: prod.splits sum.splits)

text \<open>
  C1, as stated, fails at the connection tier: the connection of the test file's stub
  driver implements no optional interface, and the connection that \<open>Open\<close> of the wrapped
  driver hands back satisfies all seven.
\<close>

theorem capability_preservation_counterexample:
  "fst (ocDriver_Open (Wrap stubDriver [WithOptions TraceAll]) ''fake-connection'' w0) =
     Inr (Conn_ocConn stubConn)
   \<and> conn_exts (parent_conn_methods (c_parent stubConn)) = []
   \<and> conn_exts (Conn_methods (Conn_ocConn stubConn)) =
       [Pinger, Execer, ExecerContext, Queryer, QueryerContext, ConnPrepareContext, ConnBeginTx]"
  by (simp add: ocDriver_Open_def Wrap_def applyOptions_def WithOptions_def TraceAll_def
        stubDriver_def stubConn_def stubConnection_def tracer_defs conn_exts_def
        parent_conn_methods_def driver_Conn_methods_def ocConn_methods_def)

text \<open>
  C1, amended. At the statement tier the wrapper satisfies exactly the optional
  interfaces of its parent, fixed when it is wrapped: \<open>wrapStmt\<close> hands back a statement
  that satisfies \<open>StmtExecContext\<close> and \<open>StmtQueryContext\<close> exactly where the parent's
  statement does, and so do \<open>Prepare\<close> and \<open>PrepareContext\<close> of \<open>src/options.go\<close>. At the
  connection tier the wrapper satisfies every optional interface the source knows
  (\<open>Pinger\<close>, \<open>Execer\<close>, \<open>ExecerContext\<close>, \<open>Queryer\<close>, \<open>QueryerContext\<close>,
  \<open>ConnPrepareContext\<close>, \<open>ConnBeginTx\<close>), whatever the parent implements.
\<close>

theorem statement_capabilities_preserved:
  "stmt_exts (Stmt_methods (wrapStmt stmt query opts)) = stmt_exts (parent_stmt_methods stmt)
   \<and> map_sum id (\<lambda>st. stmt_exts (Stmt_methods st)) (fst (ocConn_Prepare c query w)) =
       map_sum id (\<lambda>p. stmt_exts (parent_stmt_methods p)) (conn_Prepare (c_parent c) query)
   \<and> map_sum id (\<lambda>st. stmt_exts (Stmt_methods st)) (fst (ocConn_PrepareContext c ctx query w)) =
       map_sum id (\<lambda>p. stmt_exts (parent_stmt_methods p))
         (case conn_PrepareContext (c_parent c) of
            Some prepCtx \<Rightarrow>
              prepCtx (if AllowRoot (c_options c) \<or> FromContext ctx \<noteq> None
                       then WithSpan (nextSpan w) ctx else ctx) query
          | None \<Rightarrow> conn_Prepare (c_parent c) query)
   \<and> conn_exts (Conn_methods conn) =
       [Pinger, Execer, ExecerContext, Queryer, QueryerContext, ConnPrepareContext, ConnBeginTx]"
  by (intro conjI) (rule wrapStmt_exts Prepare_exts PrepareContext_exts ocConn_exts)+

theorem statement_capabilities_preserved_witness:
  "stmt_exts (parent_stmt_methods stubStmt) = []
   \<and> stmt_exts (Stmt_methods (wrapStmt stubStmt ''SELECT 1'' TraceAll)) = []
   \<and> stmt_exts (parent_stmt_methods fullStmt) = [StmtExecContext, StmtQueryContext]
   \<and> stmt_exts (Stmt_methods (wrapStmt fullStmt ''SELECT 1'' TraceAll)) =
       [StmtExecContext, StmtQueryContext]
   \<and> map_sum id (\<lambda>st. stmt_exts (Stmt_methods st))
        (fst (ocConn_PrepareContext fullConn appCtx ''SELECT 1'' w0)) =
       Inr [StmtExecContext, StmtQueryContext]"
proof -
  have a: "stmt_exts (parent_stmt_methods stubStmt) = []"
    by (simp add: stmt_exts_def parent_stmt_methods_def driver_Stmt_methods_def stubStmt_def)
  have b: "stmt_exts (parent_stmt_methods fullStmt) = [StmtExecContext, StmtQueryContext]"
    by (simp add: stmt_exts_def parent_stmt_methods_def driver_Stmt_methods_def fullStmt_def)
  have c: "stmt_exts (Stmt_methods (wrapStmt stubStmt ''SELECT 1'' TraceAll)) = []"
    using statement_capabilities_preserved [where stmt = stubStmt and query = "''SELECT 1''"
        and opts = TraceAll] a
    by simp
  have d: "stmt_exts (Stmt_methods (wrapStmt fullStmt ''SELECT 1'' TraceAll)) =
       [StmtExecContext, StmtQueryContext]"
    using statement_capabilities_preserved [where stmt = fullStmt and query = "''SELECT 1''"
        and opts = TraceAll] b
    by simp
  have e: "map_sum id (\<lambda>st. stmt_exts (Stmt_methods st))
        (fst (ocConn_PrepareContext fullConn appCtx ''SELECT 1'' w0)) =
       Inr [StmtExecContext, StmtQueryContext]"
    using statement_capabilities_preserved [where c = fullConn and ctx = appCtx
        and query = "''SELECT 1''" and w = w0] b
    by (simp add: fullConn_def fullConnection_def)
  from a b c d e show ?thesis by blast
qed

text \<open>
  C2 on \<open>src/driver.go\<close>. \<open>PrepareContext\<close> of that snapshot hands back the \<open>ocStmt\<close>
  itself: for the stub statement of the test file, which implements neither optional
  interface, the statement handed back satisfies both. \<open>Prepare\<close> of the same file goes
  through \<open>wrapStmt\<close> and hands back a statement that satisfies neither.
\<close>

theorem PrepareContext_driver_go_widens:
  "stmt_exts (parent_stmt_methods stubStmt) = []
   \<and> fst (ocConn_PrepareContext_driver_go stubConn appCtx ''SELECT 1'' w0) =
       Inr (Stmt_ocStmt \<lparr>s_parent = stubStmt, s_query = ''SELECT 1'', s_options = TraceAll\<rparr>)
   \<and> stmt_exts (Stmt_methods
        (Stmt_ocStmt \<lparr>s_parent = stubStmt, s_query = ''SELECT 1'', s_options = TraceAll\<rparr>)) =
       [StmtExecContext, StmtQueryContext]
   \<and> fst (ocConn_Prepare_driver_go stubConn ''SELECT 1'' w0) =
       Inr (Stmt_struct \<lparr>s_parent = stubStmt, s_query = ''SELECT 1'', s_options = TraceAll\<rparr>)
   \<and> stmt_exts (Stmt_methods
        (Stmt_struct \<lparr>s_parent = stubStmt, s_query = ''SELECT 1'', s_options = TraceAll\<rparr>)) = []"
  by (simp add: ocConn_PrepareContext_driver_go_def ocConn_Prepare_driver_go_def wrapStmt_def
        tracer_defs stubConn_def stubConnection_def stubStmt_def stmt_exts_def
        parent_stmt_methods_def driver_Stmt_methods_def ocStmt_methods_def)

section \<open>C8: the long-lived transaction span of \<open>src/driver.go\<close>\<close>

text \<open>
  What \<open>Rollback\<close> and \<open>Commit\<close> of \<open>src/driver.go\<close> do for a transaction whose own
  options have \<open>Transaction\<close> set and whose context carries a span: after the operation
  span, the carried span gets its status (Aborted after a rollback without error) and
  is ended.
\<close>

lemma Rollback_driver_go_with_Transaction:
  "Transaction (t_options t) \<Longrightarrow> FromContext (t_ctx t) = Some txSpan \<Longrightarrow>
   tx_Rollback (t_parent t) = None \<Longrightarrow>
   ocTx_Rollback_driver_go t w =
     (None,
      w\<lparr>nextSpan := Suc (nextSpan w),
        events := events w @
          [EvStartSpan (nextSpan w) (Some txSpan) ''sql:rollback'',
           EvCall ''Tx.Rollback'' None,
           EvSetStatus (nextSpan w) \<lparr>Code = StatusCodeOK, Message = []\<rparr>,
           EvEnd (nextSpan w),
           EvSetStatus txSpan \<lparr>Code = StatusCodeAborted, Message = ''transaction rollback''\<rparr>,
           EvEnd txSpan]\<rparr>)"
  by (simp add: ocTx_Rollback_driver_go_def tracer_defs statusOf_def)

lemma Commit_driver_go_with_Transaction:
  "Transaction (t_options t) \<Longrightarrow> FromContext (t_ctx t) = Some txSpan \<Longrightarrow>
   tx_Commit (t_parent t) = None \<Longrightarrow>
   ocTx_Commit_driver_go t w =
     (None,
      w\<lparr>nextSpan := Suc (nextSpan w),
        events := events w @
          [EvStartSpan (nextSpan w) (Some txSpan) ''sql:commit'',
           EvCall ''Tx.Commit'' None,
           EvSetStatus (nextSpan w) \<lparr>Code = StatusCodeOK, Message = []\<rparr>,
           EvEnd (nextSpan w),
           EvSetStatus txSpan \<lparr>Code = StatusCodeOK, Message = []\<rparr>,
           EvSetStatus txSpan \<lparr>Code = StatusCodeOK, Message = []\<rparr>,
           EvEnd txSpan]\<rparr>)"
  by (simp add: ocTx_Commit_driver_go_def tracer_defs statusOf_def)

text \<open>
  But no transaction that \<open>BeginTx\<close> of \<open>src/driver.go\<close> hands back has \<open>Transaction\<close>
  set in its own options: they are the zero options, whatever the connection's are.
\<close>

lemma BeginTx_driver_go_options:
  "set (held Tx_options (fst (ocConn_BeginTx_driver_go c ctx opts w))) \<subseteq> {TraceOptions_zero}"
  by (cases "conn_BeginTx (c_parent c)"; cases "ctx = TODO"; cases "Transaction (c_options c)")
     (simp_all add: ocConn_BeginTx_driver_go_def tracer_defs split: prod.splits)

text \<open>
  C8 on \<open>src/driver.go\<close>. With \<open>Transaction\<close> enabled, \<open>BeginTx\<close> opens the long-lived
  span (span 0) and the begin span (span 1). \<open>Rollback\<close> and \<open>Commit\<close> on the transaction
  it hands back open and close their own span (span 2) only: span 0 gets no status and
  is never ended.
\<close>

theorem transaction_span_is_never_closed:
  "Transaction (c_options fullConn)
   \<and> ocConn_BeginTx_driver_go fullConn appCtx txOpts w0 =
       (Inr (Tx_oc \<lparr>t_parent = stubTx, t_ctx = WithSpan 0 appCtx, t_options = TraceOptions_zero\<rparr>),
        \<lparr>nextSpan = 2,
         events =
           [EvStartSpan 0 None ''sql:transaction'',
            EvStartSpan 1 (Some 0) ''sql:begin_transaction'',
            EvCall ''ConnBeginTx.BeginTx'' (Some (WithSpan 0 appCtx)),
            EvSetStatus 1 \<lparr>Code = StatusCodeOK, Message = []\<rparr>,
            EvEnd 1]\<rparr>)
   \<and> ocTx_Rollback_driver_go
        \<lparr>t_parent = stubTx, t_ctx = WithSpan 0 appCtx, t_options = TraceOptions_zero\<rparr>
        \<lparr>nextSpan = 2, events = []\<rparr> =
       (None,
        \<lparr>nextSpan = 3,
         events =
           [EvStartSpan 2 (Some 0) ''sql:rollback'',
            EvCall ''Tx.Rollback'' None,
            EvSetStatus 2 \<lparr>Code = StatusCodeOK, Message = []\<rparr>,
            EvEnd 2]\<rparr>)
   \<and> ocTx_Commit_driver_go
        \<lparr>t_parent = stubTx, t_ctx = WithSpan 0 appCtx, t_options = TraceOptions_zero\<rparr>
        \<lparr>nextSpan = 2, events = []\<rparr> =
       (None,
        \<lparr>nextSpan = 3,
         events =
           [EvStartSpan 2 (Some 0) ''sql:commit'',
            EvCall ''Tx.Commit'' None,
            EvSetStatus 2 \<lparr>Code = StatusCodeOK, Message = []\<rparr>,
            EvEnd 2]\<rparr>)"
  by (simp add: ocConn_BeginTx_driver_go_def ocTx_Rollback_driver_go_def ocTx_Commit_driver_go_def
        tracer_defs statusOf_def fullConn_def fullConnection_def stubTx_def TraceAll_def
        TraceOptions_zero_def appCtx_def txOpts_def w0_def)

section \<open>Without AllowRoot, every wrapper carries a span\<close>

text \<open>
  With \<open>AllowRoot\<close> false, a result, rows or a transaction is wrapped only on a path that
  found a span in the inbound context, and the wrapper keeps a context that carries a
  span: the spans its methods start are never roots.
\<close>

lemma carried_Result_parent [simp]: "carried Result_ctxs (map_sum id Result_parent r) = []"
  by (cases r) (simp_all add: carried_def)

lemma carried_Rows_parent [simp]: "carried Rows_ctxs (map_sum id Rows_parent r) = []"
  by (cases r) (simp_all add: carried_def)

lemma carried_Tx_parent [simp]: "carried Tx_ctxs (map_sum id Tx_parent r) = []"
  by (cases r) (simp_all add: carried_def)

lemma carried_wrapped [simp]:
  "list_all P (carried f (case r of Inl err \<Rightarrow> Inl err | Inr x \<Rightarrow> Inr (g x)))
     \<longleftrightarrow> (\<forall>x. r = Inr x \<longrightarrow> list_all P (f (g x)))"
  by (cases r) (simp_all add: carried_def)

lemma carried_error [simp]: "carried f (Inl err) = []"
  by (simp add: carried_def)

lemma Exec_carries:
  "\<not> AllowRoot (c_options c) \<Longrightarrow>
   list_all carries_span (carried Result_ctxs (fst (ocConn_Exec F c query vals w)))"
  by (cases "conn_Exec (c_parent c)") (simp_all add: ocConn_Exec_def)

lemma ExecContext_carries:
  "\<not> AllowRoot (c_options c) \<Longrightarrow>
   list_all carries_span (carried Result_ctxs (fst (ocConn_ExecContext F c ctx query args w)))"
  by (cases "conn_ExecContext (c_parent c)")
     (simp_all add: ocConn_ExecContext_def tracer_defs carries_span_def split: prod.splits)

lemma Query_carries:
  "\<not> AllowRoot (c_options c) \<Longrightarrow>
   list_all carries_span (carried Rows_ctxs (fst (ocConn_Query F c query vals w)))"
  by (cases "conn_Query (c_parent c)") (simp_all add: ocConn_Query_def)

lemma QueryContext_carries:
  "\<not> AllowRoot (c_options c) \<Longrightarrow>
   list_all carries_span (carried Rows_ctxs (fst (ocConn_QueryContext F c ctx query args w)))"
  by (cases "conn_QueryContext (c_parent c)")
     (simp_all add: ocConn_QueryContext_def tracer_defs carries_span_def split: prod.splits)

lemma BeginTx_carries:
  "\<not> AllowRoot (c_options c) \<Longrightarrow>
   list_all carries_span (carried Tx_ctxs (fst (ocConn_BeginTx c ctx opts w)))"
  by (cases "conn_BeginTx (c_parent c)"; cases ctx)
     (simp_all add: ocConn_BeginTx_def tracer_defs carries_span_def split: prod.splits)

lemma Stmt_Exec_carries:
  "\<not> AllowRoot (s_options s) \<Longrightarrow>
   list_all carries_span (carried Result_ctxs (fst (ocStmt_Exec F s vals w)))"
  by (simp add: ocStmt_Exec_def)

lemma Stmt_Query_carries:
  "\<not> AllowRoot (s_options s) \<Longrightarrow>
   list_all carries_span (carried Rows_ctxs (fst (ocStmt_Query F s vals w)))"
  by (simp add: ocStmt_Query_def)

lemma Stmt_ExecContext_carries:
  "\<not> AllowRoot (s_options s) \<Longrightarrow>
   list_all carries_span (carried_opt Result_ctxs (fst (ocStmt_ExecContext F s ctx args w)))"
  by (cases "stmt_ExecContext (s_parent s)")
     (simp_all add: ocStmt_ExecContext_def carried_opt_def tracer_defs carries_span_def
        split: prod.splits)

lemma Stmt_QueryContext_carries:
  "\<not> AllowRoot (s_options s) \<Longrightarrow>
   list_all carries_span (carried_opt Rows_ctxs (fst (ocStmt_QueryContext F s ctx args w)))"
  by (cases "stmt_QueryContext (s_parent s)")
     (simp_all add: ocStmt_QueryContext_def carried_opt_def tracer_defs carries_span_def
        split: prod.splits)

end
